theory Spec2Isabelle
  imports Complex_Main
begin

section \<open>Python values\<close>

text \<open>
  The program is one Python module, \<^verbatim>\<open>app.py\<close>: a Flask application that loads
  four pickled artifacts at start-up and answers \<^verbatim>\<open>POST /predict\<close> either through
  the artifacts or through a closed formula.  Its data are Python objects decoded from
  JSON, so the model starts with them.

  A Python \<^verbatim>\<open>float\<close> is an IEEE 754 binary64 number.  A finite one is represented
  by its exact rational value; the two infinities and NaN are separate constructors.
  The sign of zero is not represented.  No result of the fallback depends on it: a zero
  is falsy whatever its sign, and \<^verbatim>\<open>max(0, x)\<close> keeps the integer \<^verbatim>\<open>0\<close> for both
  zeros.  A model's prediction \<^verbatim>\<open>-0.0\<close> is not told apart from \<^verbatim>\<open>0.0\<close>.
\<close>

datatype pyfloat = Finite rat | PInf | NInf | NaN

text \<open>
  The values that \<^verbatim>\<open>json.loads\<close> produces: \<^verbatim>\<open>None\<close>, \<^verbatim>\<open>bool\<close>, \<^verbatim>\<open>int\<close>
  (unbounded), \<^verbatim>\<open>float\<close>, \<^verbatim>\<open>str\<close>, \<^verbatim>\<open>list\<close> and \<^verbatim>\<open>dict\<close>.  A dict is the
  list of its items in insertion order; its keys are distinct.  A \<^verbatim>\<open>str\<close> is the
  list of its code points; the type \<open>char\<close> holds the code points below 256 (Latin-1).
\<close>

datatype pyval =
    PNone
  | PBool bool
  | PInt int
  | PFloat pyfloat
  | PStr string
  | PList "pyval list"
  | PDict "(string \<times> pyval) list"

text \<open>Exceptions carry the message that \<^verbatim>\<open>str(e)\<close> returns.\<close>

datatype pyerror =
    AttributeError string
  | ValueError string
  | TypeError string
  | OverflowError string
  | FileNotFoundError string
  | OtherError string

fun str_exc :: "pyerror \<Rightarrow> string" where
  "str_exc (AttributeError m) = m"
| "str_exc (ValueError m) = m"
| "str_exc (TypeError m) = m"
| "str_exc (OverflowError m) = m"
| "str_exc (FileNotFoundError m) = m"
| "str_exc (OtherError m) = m"

section \<open>Binary64 arithmetic\<close>

text \<open>\<open>bit_length n\<close> is the number of binary digits of \<open>n\<close>.\<close>

fun bit_length :: "nat \<Rightarrow> nat" where
  "bit_length n = (if n = 0 then 0 else Suc (bit_length (n div 2)))"

declare bit_length.simps [simp del]

definition pow2 :: "int \<Rightarrow> rat" where
  "pow2 k = (if 0 \<le> k then 2 ^ nat k else 1 / 2 ^ nat (- k))"

text \<open>For \<open>q > 0\<close>, \<open>ilog2 q\<close> is the exponent \<open>e\<close> with \<open>2^e \<le> q < 2^(e+1)\<close>.\<close>

definition ilog2 :: "rat \<Rightarrow> int" where
  "ilog2 q = (if 1 \<le> q then int (bit_length (nat \<lfloor>q\<rfloor>)) - 1
              else - int (bit_length (nat (\<lceil>1 / q\<rceil> - 1))))"

definition round_half_even :: "rat \<Rightarrow> int" where
  "round_half_even x =
     (let f = \<lfloor>x\<rfloor>; d = x - of_int f
      in if d < 1 / 2 then f
         else if 1 / 2 < d then f + 1
         else if even f then f else f + 1)"

text \<open>
  \<open>rnd q\<close> is the binary64 number nearest to \<open>q\<close>, ties to even: 53 significant bits,
  the exponent of the leading bit at least \<open>-1022\<close> (below that the spacing stays
  \<open>2^-1074\<close>, the subnormal range), and an infinity when the rounded magnitude reaches
  \<open>2^1024\<close>.
\<close>

definition rnd :: "rat \<Rightarrow> pyfloat" where
  "rnd q =
     (if q = 0 then Finite 0
      else
        let e = max (ilog2 \<bar>q\<bar>) (- 1022);
            n = round_half_even (\<bar>q\<bar> * pow2 (52 - e))
        in if 1023 < e \<or> (e = 1023 \<and> n = 2 ^ 53)
           then (if 0 < q then PInf else NInf)
           else Finite (sgn q * (of_int n * pow2 (e - 52))))"

text \<open>Multiplication and subtraction of two floats, as IEEE 754 defines them.\<close>

fun fmul :: "pyfloat \<Rightarrow> pyfloat \<Rightarrow> pyfloat" where
  "fmul NaN y = NaN"
| "fmul x NaN = NaN"
| "fmul (Finite a) (Finite b) = rnd (a * b)"
| "fmul (Finite a) PInf = (if a = 0 then NaN else if 0 < a then PInf else NInf)"
| "fmul (Finite a) NInf = (if a = 0 then NaN else if 0 < a then NInf else PInf)"
| "fmul PInf (Finite b) = (if b = 0 then NaN else if 0 < b then PInf else NInf)"
| "fmul NInf (Finite b) = (if b = 0 then NaN else if 0 < b then NInf else PInf)"
| "fmul PInf PInf = PInf"
| "fmul PInf NInf = NInf"
| "fmul NInf PInf = NInf"
| "fmul NInf NInf = PInf"

fun fsub :: "pyfloat \<Rightarrow> pyfloat \<Rightarrow> pyfloat" where
  "fsub NaN y = NaN"
| "fsub x NaN = NaN"
| "fsub (Finite a) (Finite b) = rnd (a - b)"
| "fsub (Finite a) PInf = NInf"
| "fsub (Finite a) NInf = PInf"
| "fsub PInf PInf = NaN"
| "fsub PInf y = PInf"
| "fsub NInf NInf = NaN"
| "fsub NInf y = NInf"

text \<open>\<^verbatim>\<open>x > 0\<close> and \<^verbatim>\<open>x != 0\<close> on a float; every comparison with NaN is false.\<close>

fun fgt0 :: "pyfloat \<Rightarrow> bool" where
  "fgt0 (Finite q) = (0 < q)"
| "fgt0 PInf = True"
| "fgt0 NInf = False"
| "fgt0 NaN = False"

fun fnonzero :: "pyfloat \<Rightarrow> bool" where
  "fnonzero (Finite q) = (q \<noteq> 0)"
| "fnonzero x = True"

text \<open>
  A float literal of the source denotes the double nearest to its decimal value:
  \<^verbatim>\<open>0.2\<close>, \<^verbatim>\<open>0.1\<close> and \<^verbatim>\<open>12.0\<close>.
\<close>

definition lit_0_2 :: pyfloat where "lit_0_2 = rnd (2 / 10)"
definition lit_0_1 :: pyfloat where "lit_0_1 = rnd (1 / 10)"
definition lit_12_0 :: pyfloat where "lit_12_0 = rnd 12"

text \<open>
  \<^verbatim>\<open>float(n)\<close> for an \<^verbatim>\<open>int\<close>: the nearest double, and \<^verbatim>\<open>OverflowError\<close> when that
  would not be finite.
\<close>

definition float_of_int :: "int \<Rightarrow> pyerror + pyfloat" where
  "float_of_int n =
     (case rnd (of_int n) of
        Finite q \<Rightarrow> Inr (Finite q)
      | _ \<Rightarrow> Inl (OverflowError ''int too large to convert to float''))"

text \<open>
  \<^verbatim>\<open>round(x, 2)\<close> on a float: the exact value is rounded to two decimals, ties to
  even, and the decimal result is converted back to the nearest double; infinities and
  NaN round to themselves.  On an \<^verbatim>\<open>int\<close>, \<^verbatim>\<open>round(n, 2)\<close> is \<open>n\<close>.
\<close>

fun fround2 :: "pyfloat \<Rightarrow> pyfloat" where
  "fround2 (Finite q) = rnd (of_int (round_half_even (q * 100)) / 100)"
| "fround2 x = x"

section \<open>Strings\<close>

text \<open>
  \<^verbatim>\<open>str.lower()\<close>: below 256 the upper-case letters are \<^verbatim>\<open>A\<close> to \<^verbatim>\<open>Z\<close> and the
  code points 192 to 222 except the multiplication sign 215; each has its lower-case
  letter 32 places further.
\<close>

definition upper_chars :: string where
  "upper_chars =
     ''ABCDEFGHIJKLMNOPQRSTUVWXYZ'' @
     [CHR 0xC0, CHR 0xC1, CHR 0xC2, CHR 0xC3, CHR 0xC4, CHR 0xC5, CHR 0xC6,
      CHR 0xC7, CHR 0xC8, CHR 0xC9, CHR 0xCA, CHR 0xCB, CHR 0xCC, CHR 0xCD,
      CHR 0xCE, CHR 0xCF, CHR 0xD0, CHR 0xD1, CHR 0xD2, CHR 0xD3, CHR 0xD4,
      CHR 0xD5, CHR 0xD6, CHR 0xD8, CHR 0xD9, CHR 0xDA, CHR 0xDB, CHR 0xDC,
      CHR 0xDD, CHR 0xDE]"

definition lower_chars :: string where
  "lower_chars =
     ''abcdefghijklmnopqrstuvwxyz'' @
     [CHR 0xE0, CHR 0xE1, CHR 0xE2, CHR 0xE3, CHR 0xE4, CHR 0xE5, CHR 0xE6,
      CHR 0xE7, CHR 0xE8, CHR 0xE9, CHR 0xEA, CHR 0xEB, CHR 0xEC, CHR 0xED,
      CHR 0xEE, CHR 0xEF, CHR 0xF0, CHR 0xF1, CHR 0xF2, CHR 0xF3, CHR 0xF4,
      CHR 0xF5, CHR 0xF6, CHR 0xF8, CHR 0xF9, CHR 0xFA, CHR 0xFB, CHR 0xFC,
      CHR 0xFD, CHR 0xFE]"

definition lower_char :: "char \<Rightarrow> char" where
  "lower_char c =
     (case map_of (zip upper_chars lower_chars) c of
        Some d \<Rightarrow> d
      | None \<Rightarrow> c)"

definition py_lower :: "string \<Rightarrow> string" where
  "py_lower s = map lower_char s"

text \<open>
  \<^verbatim>\<open>str.strip()\<close> removes the white space of \<^verbatim>\<open>str.isspace\<close>: below 256 the code
  points 9 to 13, 28 to 31, the blank, the next-line control 133 and the no-break
  space 160.
\<close>

definition is_space :: "char \<Rightarrow> bool" where
  "is_space c \<longleftrightarrow>
     c \<in> set [CHR 0x09, CHR 0x0A, CHR 0x0B, CHR 0x0C, CHR 0x0D,
               CHR 0x1C, CHR 0x1D, CHR 0x1E, CHR 0x1F, CHR 0x20, CHR 0x85, CHR 0xA0]"

definition py_strip :: "string \<Rightarrow> string" where
  "py_strip s = rev (dropWhile is_space (rev (dropWhile is_space s)))"

subsection \<open>\<^verbatim>\<open>float(s)\<close> on a string\<close>

definition is_digit :: "char \<Rightarrow> bool" where
  "is_digit c \<longleftrightarrow> c \<in> set ''0123456789''"

definition digit_val :: "char \<Rightarrow> nat" where
  "digit_val c =
     (case map_of (zip ''0123456789'' [0, 1, 2, 3, 4, 5, 6, 7, 8, 9]) c of
        Some d \<Rightarrow> d
      | None \<Rightarrow> 0)"

fun digits_val :: "nat \<Rightarrow> string \<Rightarrow> nat" where
  "digits_val acc [] = acc"
| "digits_val acc (c # cs) = digits_val (10 * acc + digit_val c) cs"

text \<open>
  An underscore is allowed between two digits only; the underscores are removed before
  the text is parsed.  \<open>prev\<close> is the character before, \<^verbatim>\<open>NUL\<close> at the start.
\<close>

fun strip_underscores :: "char \<Rightarrow> string \<Rightarrow> string option" where
  "strip_underscores prev [] = (if prev = CHR ''_'' then None else Some [])"
| "strip_underscores prev (c # cs) =
     (if c = CHR ''_'' then
        (if is_digit prev then strip_underscores c cs else None)
      else if prev = CHR ''_'' \<and> \<not> is_digit c then None
      else map_option ((#) c) (strip_underscores c cs))"

text \<open>
  \<^verbatim>\<open>float\<close> first turns a string that is not ASCII into ASCII: a code point below
  127 is kept, white space becomes a blank, and at any other code point the text ends
  with a question mark (below 256 no code point beyond ASCII is a decimal digit, which
  would become its ASCII digit).  An ASCII string is taken as it is.
\<close>

definition is_ascii :: "char \<Rightarrow> bool" where
  "is_ascii c \<longleftrightarrow> of_char c < (128 :: nat)"

fun to_ascii :: "string \<Rightarrow> string" where
  "to_ascii [] = []"
| "to_ascii (c # cs) =
     (if of_char c < (127 :: nat) then c # to_ascii cs
      else if is_space c then CHR 0x20 # to_ascii cs
      else ''?'')"

definition float_text :: "string \<Rightarrow> string" where
  "float_text s = (if list_all is_ascii s then s else to_ascii s)"

text \<open>The white space that \<^verbatim>\<open>float\<close> then skips at both ends of the ASCII text.\<close>

definition is_float_space :: "char \<Rightarrow> bool" where
  "is_float_space c \<longleftrightarrow>
     c \<in> set [CHR 0x09, CHR 0x0A, CHR 0x0B, CHR 0x0C, CHR 0x0D, CHR 0x20]"

definition float_strip :: "string \<Rightarrow> string" where
  "float_strip s = rev (dropWhile is_float_space (rev (dropWhile is_float_space s)))"

definition parse_sign :: "string \<Rightarrow> int \<times> string" where
  "parse_sign s =
     (case s of
        [] \<Rightarrow> (1, [])
      | c # cs \<Rightarrow>
          if c = CHR ''-'' then (- 1, cs)
          else if c = CHR ''+'' then (1, cs)
          else (1, s))"

definition parse_exponent :: "string \<Rightarrow> int option" where
  "parse_exponent s =
     (case s of
        [] \<Rightarrow> Some 0
      | c # cs \<Rightarrow>
          if c = CHR ''e'' \<or> c = CHR ''E'' then
            (let (sg, ds) = parse_sign cs
             in if ds \<noteq> [] \<and> list_all is_digit ds
                then Some (sg * int (digits_val 0 ds)) else None)
          else None)"

definition pow10 :: "int \<Rightarrow> rat" where
  "pow10 k = (if 0 \<le> k then 10 ^ nat k else 1 / 10 ^ nat (- k))"

text \<open>
  Digits, an optional point with more digits, an optional exponent; at least one digit
  before the exponent.  The result is the exact decimal value.
\<close>

definition parse_decimal :: "string \<Rightarrow> rat option" where
  "parse_decimal s =
     (let ip = takeWhile is_digit s;
          r1 = dropWhile is_digit s;
          has_point = (r1 \<noteq> [] \<and> hd r1 = CHR ''.'');
          fp = (if has_point then takeWhile is_digit (tl r1) else []);
          r2 = (if has_point then dropWhile is_digit (tl r1) else r1)
      in if ip = [] \<and> fp = [] then None
         else
           (case parse_exponent r2 of
              None \<Rightarrow> None
            | Some ex \<Rightarrow>
                Some (of_nat (digits_val 0 (ip @ fp)) * pow10 (ex - int (length fp)))))"

text \<open>
  \<open>float_of_str s\<close> is \<open>Some x\<close> when \<^verbatim>\<open>float(s)\<close> returns \<open>x\<close> and \<open>None\<close> when it
  raises \<^verbatim>\<open>ValueError\<close>: in the ASCII text, after the underscores and the white space
  at both ends are removed, an optional sign, then \<^verbatim>\<open>inf\<close>, \<^verbatim>\<open>infinity\<close> or \<^verbatim>\<open>nan\<close>
  in any case, or a decimal number, which is rounded to the nearest double.
\<close>

definition float_of_str :: "string \<Rightarrow> pyfloat option" where
  "float_of_str s =
     (case strip_underscores (CHR 0x00) (float_text s) of
        None \<Rightarrow> None
      | Some t \<Rightarrow>
          (let (sg, body) = parse_sign (float_strip t);
               w = py_lower body
           in if w = ''inf'' \<or> w = ''infinity'' then Some (if sg < 0 then NInf else PInf)
              else if w = ''nan'' then Some NaN
              else map_option (\<lambda>q. rnd (of_int sg * q)) (parse_decimal body)))"

subsection \<open>\<^verbatim>\<open>repr\<close> of a string, for messages\<close>

text \<open>
  The quote is doubled up only when the string has a single quote and no double quote.
  The quote in use and the backslash are escaped, tab, line feed and carriage return
  have their letters, and the other code points that are not printable (the controls 0
  to 31 and 127 to 159, the no-break space 160 and the soft hyphen 173) are written
  \<^verbatim>\<open>\xhh\<close>.
\<close>

definition hex_digit :: "nat \<Rightarrow> char" where
  "hex_digit n = ''0123456789abcdef'' ! (n mod 16)"

definition repr_char :: "char \<Rightarrow> char \<Rightarrow> string" where
  "repr_char q c =
     (if c = q \<or> c = CHR 0x5C then [CHR 0x5C, c]
      else if c = CHR 0x09 then [CHR 0x5C, CHR ''t'']
      else if c = CHR 0x0A then [CHR 0x5C, CHR ''n'']
      else if c = CHR 0x0D then [CHR 0x5C, CHR ''r'']
      else if of_char c < (32 :: nat) \<or> (127 \<le> (of_char c :: nat) \<and> of_char c \<le> (160 :: nat))
              \<or> c = CHR 0xAD
        then [CHR 0x5C, CHR ''x'', hex_digit (of_char c div 16), hex_digit (of_char c)]
      else [c])"

definition py_repr :: "string \<Rightarrow> string" where
  "py_repr s =
     (let q = (if CHR 0x27 \<in> set s \<and> CHR 0x22 \<notin> set s then CHR 0x22 else CHR 0x27)
      in [q] @ concat (map (repr_char q) s) @ [q])"

section \<open>Built-in operations on values\<close>

text \<open>The name of a value's type, as error messages print it.\<close>

fun type_name :: "pyval \<Rightarrow> string" where
  "type_name PNone = ''NoneType''"
| "type_name (PBool b) = ''bool''"
| "type_name (PInt n) = ''int''"
| "type_name (PFloat x) = ''float''"
| "type_name (PStr s) = ''str''"
| "type_name (PList xs) = ''list''"
| "type_name (PDict kvs) = ''dict''"

text \<open>Truth value of an object, which decides \<^verbatim>\<open>x or 0\<close>.\<close>

fun truthy :: "pyval \<Rightarrow> bool" where
  "truthy PNone = False"
| "truthy (PBool b) = b"
| "truthy (PInt n) = (n \<noteq> 0)"
| "truthy (PFloat x) = fnonzero x"
| "truthy (PStr s) = (s \<noteq> [])"
| "truthy (PList xs) = (xs \<noteq> [])"
| "truthy (PDict kvs) = (kvs \<noteq> [])"

definition py_or :: "pyval \<Rightarrow> pyval \<Rightarrow> pyval" where
  "py_or x y = (if truthy x then x else y)"

text \<open>\<^verbatim>\<open>float(v)\<close>, with the messages of CPython 3.10 and later.\<close>

definition float_type_error :: "pyval \<Rightarrow> pyerror" where
  "float_type_error v =
     TypeError (''float() argument must be a string or a real number, not '' @
                [CHR 0x27] @ type_name v @ [CHR 0x27])"

fun py_float :: "pyval \<Rightarrow> pyerror + pyfloat" where
  "py_float PNone = Inl (float_type_error PNone)"
| "py_float (PBool b) = Inr (Finite (if b then 1 else 0))"
| "py_float (PInt n) = float_of_int n"
| "py_float (PFloat x) = Inr x"
| "py_float (PStr s) =
     (case float_of_str s of
        Some x \<Rightarrow> Inr x
      | None \<Rightarrow> Inl (ValueError (''could not convert string to float: '' @ py_repr s)))"
| "py_float (PList xs) = Inl (float_type_error (PList xs))"
| "py_float (PDict kvs) = Inl (float_type_error (PDict kvs))"

text \<open>
  \<^verbatim>\<open>max(0, x)\<close> for a float \<open>x\<close> keeps the first argument, the integer \<^verbatim>\<open>0\<close>, unless
  \<^verbatim>\<open>x > 0\<close>; \<^verbatim>\<open>round(v, 2)\<close> keeps an integer and rounds a float.
\<close>

definition py_max0 :: "pyfloat \<Rightarrow> pyval" where
  "py_max0 x = (if fgt0 x then PFloat x else PInt 0)"

fun py_round2 :: "pyval \<Rightarrow> pyval" where
  "py_round2 (PFloat x) = PFloat (fround2 x)"
| "py_round2 v = v"

text \<open>\<^verbatim>\<open>d.get(k)\<close> on a dict: the value, or \<^verbatim>\<open>None\<close> for a missing key.\<close>

definition dict_get :: "(string \<times> pyval) list \<Rightarrow> string \<Rightarrow> pyval" where
  "dict_get kvs k = (case map_of kvs k of Some v \<Rightarrow> v | None \<Rightarrow> PNone)"

text \<open>\<^verbatim>\<open>d[k] = v\<close>: the value of an existing key is replaced, a new key goes last.\<close>

fun dict_set :: "(string \<times> 'v) list \<Rightarrow> string \<Rightarrow> 'v \<Rightarrow> (string \<times> 'v) list" where
  "dict_set [] k v = [(k, v)]"
| "dict_set ((k', v') # kvs) k v =
     (if k' = k then (k, v) # kvs else (k', v') # dict_set kvs k v)"

section \<open>Configuration and the model bundle\<close>

text \<open>\<^verbatim>\<open>os.path.join\<close> of two parts, on POSIX.\<close>

definition os_path_join :: "string \<Rightarrow> string \<Rightarrow> string" where
  "os_path_join a b =
     (if b \<noteq> [] \<and> hd b = CHR ''/'' then b
      else if a = [] \<or> last a = CHR ''/'' then a @ b
      else a @ ''/'' @ b)"

definition MODELS_DIR :: string where
  "MODELS_DIR = ''models''"

definition PREPROCESSOR_PKL :: string where
  "PREPROCESSOR_PKL = os_path_join MODELS_DIR ''preprocessor.pkl''"

definition MODEL_FILES :: "(string \<times> string) list" where
  "MODEL_FILES =
     [(''Resale_Value'', os_path_join MODELS_DIR ''Resale_Value_GradientBoosting_Model.pkl''),
      (''Recycle_Value'', os_path_join MODELS_DIR ''Recycle_Value_GradientBoosting_Model.pkl''),
      (''Reuse_Score'', os_path_join MODELS_DIR ''Reuse_Score_GradientBoosting_Model.pkl'')]"

text \<open>
  The three module-level variables \<^verbatim>\<open>preprocessor\<close>, \<^verbatim>\<open>models\<close> and
  \<^verbatim>\<open>models_loaded\<close>.  What a variable or a dict entry holds is \<^verbatim>\<open>None\<close> or an
  object of type \<open>'a\<close>; a pickle can hold \<^verbatim>\<open>None\<close> as well as an object.
\<close>

record 'a model_bundle =
  preprocessor :: "'a option"
  models :: "(string \<times> 'a option) list"
  models_loaded :: bool

definition initial_bundle :: "'a model_bundle" where
  "initial_bundle = \<lparr>preprocessor = None, models = [], models_loaded = False\<rparr>"

text \<open>
  What the loader finds at a path: nothing, a file that \<^verbatim>\<open>joblib.load\<close> fails on with
  some exception, or a file holding the pickle of an object or of \<^verbatim>\<open>None\<close>.
\<close>

datatype 'a pkl_file = Absent | Corrupt pyerror | Pickled "'a option"

fun isfile :: "'a pkl_file \<Rightarrow> bool" where
  "isfile Absent = False"
| "isfile (Corrupt e) = True"
| "isfile (Pickled a) = True"

fun joblib_load :: "string \<Rightarrow> 'a pkl_file \<Rightarrow> pyerror + 'a option" where
  "joblib_load p Absent = Inl (FileNotFoundError p)"
| "joblib_load p (Corrupt e) = Inl e"
| "joblib_load p (Pickled a) = Inr a"

text \<open>
  The body of the \<^verbatim>\<open>try\<close> in \<^verbatim>\<open>try_load_models\<close>, as two functions that return the
  bundle as the statements left it and the exception raised, if any.  The two
  \<^verbatim>\<open>print\<close> calls are not modelled.
\<close>

definition load_preprocessor ::
  "(string \<Rightarrow> 'a pkl_file) \<Rightarrow> 'a model_bundle \<Rightarrow> 'a model_bundle \<times> pyerror option" where
  "load_preprocessor fs st =
     (if isfile (fs PREPROCESSOR_PKL) then
        (case joblib_load PREPROCESSOR_PKL (fs PREPROCESSOR_PKL) of
           Inl e \<Rightarrow> (st, Some e)
         | Inr a \<Rightarrow> (st\<lparr>preprocessor := a\<rparr>, None))
      else (st, Some (FileNotFoundError PREPROCESSOR_PKL)))"

fun load_models ::
  "(string \<Rightarrow> 'a pkl_file) \<Rightarrow> (string \<times> string) list \<Rightarrow> 'a model_bundle \<Rightarrow> 'a model_bundle \<times> pyerror option" where
  "load_models fs [] st = (st, None)"
| "load_models fs ((k, p) # kps) st =
     (if isfile (fs p) then
        (case joblib_load p (fs p) of
           Inl e \<Rightarrow> (st, Some e)
         | Inr a \<Rightarrow> load_models fs kps (st\<lparr>models := dict_set (models st) k a\<rparr>))
      else (st, Some (FileNotFoundError p)))"

text \<open>
  \<^verbatim>\<open>try_load_models\<close>: the handler catches every exception of the body and only
  clears the flag, so the function always returns the bundle and raises nothing.
\<close>

definition try_load_models :: "(string \<Rightarrow> 'a pkl_file) \<Rightarrow> 'a model_bundle \<Rightarrow> 'a model_bundle" where
  "try_load_models fs st =
     (case load_preprocessor fs st of
        (st1, Some e) \<Rightarrow> st1\<lparr>models_loaded := False\<rparr>
      | (st1, None) \<Rightarrow>
          (case load_models fs MODEL_FILES st1 of
             (st2, Some e) \<Rightarrow> st2\<lparr>models_loaded := False\<rparr>
           | (st2, None) \<Rightarrow> st2\<lparr>models_loaded := True\<rparr>))"

text \<open>The module calls \<^verbatim>\<open>try_load_models()\<close> once, when it is imported.\<close>

definition startup :: "(string \<Rightarrow> 'a pkl_file) \<Rightarrow> 'a model_bundle" where
  "startup fs = try_load_models fs initial_bundle"

section \<open>Input mapper\<close>

text \<open>
  The one-row data frame that \<^verbatim>\<open>build_input_df\<close> makes, as the record of its six
  cells.  A cell holds the object the payload gave for the key, \<^verbatim>\<open>None\<close> when the key
  is missing.  Only a dict has the method \<^verbatim>\<open>get\<close>; on any other payload the first
  \<^verbatim>\<open>payload.get\<close> raises \<^verbatim>\<open>AttributeError\<close>.
\<close>

record item_record =
  Plastic_Type :: pyval
  Condition :: pyval
  Weight_Kg :: pyval
  Age_Months :: pyval
  Original_Price :: pyval
  Location :: pyval

definition no_attribute :: "pyval \<Rightarrow> string \<Rightarrow> pyerror" where
  "no_attribute v a =
     AttributeError ([CHR 0x27] @ type_name v @ [CHR 0x27] @ '' object has no attribute '' @
                     [CHR 0x27] @ a @ [CHR 0x27])"

fun build_input_df :: "pyval \<Rightarrow> pyerror + item_record" where
  "build_input_df (PDict payload) =
     Inr \<lparr>Plastic_Type = dict_get payload ''ptype'',
          Condition = dict_get payload ''condition'',
          Weight_Kg = dict_get payload ''weight'',
          Age_Months = dict_get payload ''age'',
          Original_Price = dict_get payload ''price'',
          Location = dict_get payload ''location''\<rparr>"
| "build_input_df v = Inl (no_attribute v ''get'')"

section \<open>Prediction pipeline\<close>

subsection \<open>The fallback\<close>

text \<open>\<^verbatim>\<open>float(v or 0)\<close>, which reads each of the three cells.\<close>

definition float_or_0 :: "pyval \<Rightarrow> pyerror + pyfloat" where
  "float_or_0 v = py_float (py_or v (PInt 0))"

text \<open>
  The \<^verbatim>\<open>else\<close> branch of \<^verbatim>\<open>predict_all_targets\<close>.  The cells are read in the order
  price, weight, age, and the first failure is the exception raised.  In
  \<^verbatim>\<open>100 - age\<close> the integer becomes the float \<^verbatim>\<open>100.0\<close>.
\<close>

definition fallback :: "item_record \<Rightarrow> pyerror + (string \<times> pyval) list" where
  "fallback r =
     (case float_or_0 (Original_Price r) of
        Inl e \<Rightarrow> Inl e
      | Inr price \<Rightarrow>
     (case float_or_0 (Weight_Kg r) of
        Inl e \<Rightarrow> Inl e
      | Inr weight \<Rightarrow>
     (case float_or_0 (Age_Months r) of
        Inl e \<Rightarrow> Inl e
      | Inr age \<Rightarrow>
          Inr [(''Resale_Value'',
                  py_round2 (py_max0 (fsub (fmul price lit_0_2) (fmul age lit_0_1)))),
               (''Recycle_Value'', py_round2 (py_max0 (fmul weight lit_12_0))),
               (''Reuse_Score'', py_round2 (py_max0 (fsub (Finite 100) age)))])))"

subsection \<open>The model-backed branch\<close>

text \<open>
  What the libraries and the unpickled objects do is not in the repository; it is a
  parameter of the model.  \<open>'a\<close> is the type of artifacts, \<open>'m\<close> of the matrix that
  \<^verbatim>\<open>transform\<close> returns, \<open>'f\<close> of the data frame built from it.  Every call may raise.
  \<^item> \<open>isna_list xs\<close>: the truth value that \<^verbatim>\<open>if pd.isna(v)\<close> takes when \<open>v\<close> is a list
    (pandas answers elementwise and numpy decides whether that array has a truth value);
  \<^item> \<open>transform\<close>, \<open>get_feature_names_out\<close>: the methods of the preprocessing artifact;
  \<^item> \<open>shape1\<close>: \<^verbatim>\<open>transformed.shape[1]\<close>;
  \<^item> \<open>data_frame\<close>: \<^verbatim>\<open>pd.DataFrame(transformed, columns=cols)\<close>;
  \<^item> \<open>predict_first\<close>: \<^verbatim>\<open>float(m.predict(X_enc)[0])\<close>.
\<close>

record ('a, 'm, 'f) runtime =
  isna_list :: "pyval list \<Rightarrow> pyerror + bool"
  transform :: "'a \<Rightarrow> item_record \<Rightarrow> pyerror + 'm"
  get_feature_names_out :: "'a \<Rightarrow> pyerror + string list"
  shape1 :: "'m \<Rightarrow> pyerror + nat"
  data_frame :: "'m \<Rightarrow> string list \<Rightarrow> pyerror + 'f"
  predict_first :: "'a \<Rightarrow> 'f \<Rightarrow> pyerror + pyfloat"

definition condition_mapping :: "(string \<times> int) list" where
  "condition_mapping = [(''cracked'', 1), (''used'', 2), (''good'', 3), (''new'', 4)]"

text \<open>\<^verbatim>\<open>pd.isna(v)\<close> as a condition: true for \<^verbatim>\<open>None\<close> and NaN, false for other scalars.\<close>

fun pd_isna :: "(pyval list \<Rightarrow> pyerror + bool) \<Rightarrow> pyval \<Rightarrow> pyerror + bool" where
  "pd_isna il PNone = Inr True"
| "pd_isna il (PFloat x) = Inr (x = NaN)"
| "pd_isna il (PList xs) = il xs"
| "pd_isna il v = Inr False"

text \<open>
  \<^verbatim>\<open>_map_cond\<close>.  For a string, \<^verbatim>\<open>str(v)\<close> is the string itself.  For a boolean, a
  number, a list or a dict, \<^verbatim>\<open>str(v)\<close> is \<^verbatim>\<open>True\<close>, \<^verbatim>\<open>False\<close>, a numeral,
  \<^verbatim>\<open>inf\<close>, or a text in brackets, never a key of \<open>condition_mapping\<close>, so the default
  \<open>0\<close> is returned.
\<close>

definition map_cond :: "(pyval list \<Rightarrow> pyerror + bool) \<Rightarrow> pyval \<Rightarrow> pyerror + int" where
  "map_cond il v =
     (case pd_isna il v of
        Inl e \<Rightarrow> Inl e
      | Inr True \<Rightarrow> Inr 0
      | Inr False \<Rightarrow>
          (case v of
             PStr s \<Rightarrow>
               Inr (case map_of condition_mapping (py_strip (py_lower s)) of
                      Some n \<Rightarrow> n
                    | None \<Rightarrow> 0)
           | _ \<Rightarrow> Inr 0))"

text \<open>\<^verbatim>\<open>str(i)\<close> for \<open>i \<ge> 0\<close>, and the names \<^verbatim>\<open>f0\<close>, \<^verbatim>\<open>f1\<close>, ... of \<open>n\<close> columns.\<close>

fun str_nat :: "nat \<Rightarrow> string" where
  "str_nat n =
     (if n < 10 then [''0123456789'' ! n]
      else str_nat (n div 10) @ [''0123456789'' ! (n mod 10)])"

declare str_nat.simps [simp del]

definition positional_names :: "nat \<Rightarrow> string list" where
  "positional_names n = map (\<lambda>i. ''f'' @ str_nat i) [0..<n]"

text \<open>
  The loop over \<^verbatim>\<open>models.items()\<close>, in insertion order.  A model that is \<^verbatim>\<open>None\<close>
  has no method \<^verbatim>\<open>predict\<close>.
\<close>

definition model_predict ::
  "('a, 'm, 'f) runtime \<Rightarrow> 'a option \<Rightarrow> 'f \<Rightarrow> pyerror + pyfloat" where
  "model_predict rt m X_enc =
     (case m of
        None \<Rightarrow> Inl (no_attribute PNone ''predict'')
      | Some obj \<Rightarrow> predict_first rt obj X_enc)"

fun predict_models ::
  "('a, 'm, 'f) runtime \<Rightarrow> 'f \<Rightarrow> (string \<times> 'a option) list \<Rightarrow> pyerror + (string \<times> pyval) list" where
  "predict_models rt X_enc [] = Inr []"
| "predict_models rt X_enc ((k, m) # ms) =
     (case model_predict rt m X_enc of
        Inl e \<Rightarrow> Inl e
      | Inr y \<Rightarrow>
          (case predict_models rt X_enc ms of
             Inl e \<Rightarrow> Inl e
           | Inr out \<Rightarrow> Inr ((k, PFloat y) # out)))"

definition model_backed ::
  "('a, 'm, 'f) runtime \<Rightarrow> 'a \<Rightarrow> (string \<times> 'a option) list \<Rightarrow> item_record
     \<Rightarrow> pyerror + (string \<times> pyval) list" where
  "model_backed rt pre ms df_raw =
     (case map_cond (isna_list rt) (Condition df_raw) of
        Inl e \<Rightarrow> Inl e
      | Inr c \<Rightarrow>
     (case transform rt pre (df_raw\<lparr>Condition := PInt c\<rparr>) of
        Inl e \<Rightarrow> Inl e
      | Inr transformed \<Rightarrow>
     (case (case get_feature_names_out rt pre of
              Inr names \<Rightarrow> Inr names
            | Inl e \<Rightarrow> map_sum id positional_names (shape1 rt transformed)) of
        Inl e \<Rightarrow> Inl e
      | Inr cols \<Rightarrow>
     (case data_frame rt transformed cols of
        Inl e \<Rightarrow> Inl e
      | Inr X_enc \<Rightarrow> predict_models rt X_enc ms))))"

subsection \<open>\<^verbatim>\<open>predict_all_targets\<close>\<close>

text \<open>The condition of the \<^verbatim>\<open>if\<close>: the flag, the preprocessor and a non-empty dict.\<close>

definition model_backed_mode :: "'a model_bundle \<Rightarrow> bool" where
  "model_backed_mode st \<longleftrightarrow> models_loaded st \<and> preprocessor st \<noteq> None \<and> models st \<noteq> []"

definition predict_all_targets ::
  "('a, 'm, 'f) runtime \<Rightarrow> 'a model_bundle \<Rightarrow> item_record \<Rightarrow> pyerror + (string \<times> pyval) list" where
  "predict_all_targets rt st df_raw =
     (case preprocessor st of
        None \<Rightarrow> fallback df_raw
      | Some pre \<Rightarrow>
          if models_loaded st \<and> models st \<noteq> [] then model_backed rt pre (models st) df_raw
          else fallback df_raw)"

section \<open>HTTP surface\<close>

subsection \<open>\<^verbatim>\<open>POST /predict\<close>\<close>

text \<open>
  A response of \<^verbatim>\<open>jsonify\<close>: the status code and the JSON object sent.  The request
  is given by what \<^verbatim>\<open>request.get_json(force=True)\<close> does with its body: it raises, or
  it returns the decoded payload.
\<close>

record json_response =
  status :: nat
  json :: "(string \<times> pyval) list"

text \<open>The two statements inside the second \<^verbatim>\<open>try\<close> of \<^verbatim>\<open>predict\<close>.\<close>

definition run_pipeline ::
  "('a, 'm, 'f) runtime \<Rightarrow> 'a model_bundle \<Rightarrow> pyval \<Rightarrow> pyerror + (string \<times> pyval) list" where
  "run_pipeline rt st payload =
     (case build_input_df payload of
        Inl e \<Rightarrow> Inl e
      | Inr df \<Rightarrow> predict_all_targets rt st df)"

definition predict ::
  "('a, 'm, 'f) runtime \<Rightarrow> 'a model_bundle \<Rightarrow> pyerror + pyval \<Rightarrow> json_response" where
  "predict rt st get_json =
     (case get_json of
        Inl e \<Rightarrow> \<lparr>status = 400, json = [(''error'', PStr ''Invalid JSON'')]\<rparr>
      | Inr payload \<Rightarrow>
          (case run_pipeline rt st payload of
             Inl e \<Rightarrow>
               \<lparr>status = 500,
                json = [(''error'', PStr ''Prediction failed''), (''details'', PStr (str_exc e))]\<rparr>
           | Inr preds \<Rightarrow>
               \<lparr>status = 200,
                json = [(''resale_value'', dict_get preds ''Resale_Value''),
                        (''recycle_score'', dict_get preds ''Recycle_Value''),
                        (''reuse_score'', dict_get preds ''Reuse_Score''),
                        (''models_loaded'', PBool (models_loaded st))]\<rparr>))"

text \<open>
  Serving a request: \<^verbatim>\<open>predict\<close> and the functions it calls assign none of the three
  module-level variables, so the bundle after the call is the bundle before it.  The
  states of a running server are the one that start-up leaves and those that follow it.
\<close>

definition serve_predict ::
  "('a, 'm, 'f) runtime \<Rightarrow> 'a model_bundle \<Rightarrow> pyerror + pyval \<Rightarrow> json_response \<times> 'a model_bundle" where
  "serve_predict rt st get_json = (predict rt st get_json, st)"

inductive reachable ::
  "('a, 'm, 'f) runtime \<Rightarrow> (string \<Rightarrow> 'a pkl_file) \<Rightarrow> 'a model_bundle \<Rightarrow> bool"
  for rt :: "('a, 'm, 'f) runtime" and fs :: "string \<Rightarrow> 'a pkl_file" where
  after_startup: "reachable rt fs (startup fs)"
| after_request: "reachable rt fs st \<Longrightarrow> serve_predict rt st req = (resp, st') \<Longrightarrow> reachable rt fs st'"

subsection \<open>Pages\<close>

text \<open>
  What the page handlers see of their surroundings: which paths are files, what
  \<^verbatim>\<open>render_template\<close> returns or raises for a template name, and the response of
  \<^verbatim>\<open>send_from_directory\<close>.  A page is a status code and a body.
\<close>

datatype page = Page nat string

record web =
  os_path_isfile :: "string \<Rightarrow> bool"
  render_template :: "string \<Rightarrow> pyerror + string"
  send_from_directory :: "string \<Rightarrow> string \<Rightarrow> pyerror + page"

definition template_folder :: string where
  "template_folder = ''templates''"

text \<open>\<^verbatim>\<open>app.template_folder or "templates"\<close>.\<close>

definition templates_dir :: string where
  "templates_dir = (if template_folder \<noteq> [] then template_folder else ''templates'')"

definition render_or_static :: "web \<Rightarrow> string \<Rightarrow> pyerror + page" where
  "render_or_static w fname =
     (if os_path_isfile w (os_path_join templates_dir fname) then
        (case render_template w fname of
           Inr html \<Rightarrow> Inr (Page 200 html)
         | Inl e \<Rightarrow> send_from_directory w template_folder fname)
      else Inr (Page 404 ''Template not found on server''))"

definition index :: "web \<Rightarrow> pyerror + page" where
  "index w = render_or_static w ''index.html''"

definition endswith :: "string \<Rightarrow> string \<Rightarrow> bool" where
  "endswith s suffix \<longleftrightarrow>
     length suffix \<le> length s \<and> drop (length s - length suffix) s = suffix"

definition catch_all :: "web \<Rightarrow> string \<Rightarrow> pyerror + page" where
  "catch_all w subpath =
     (let candidate = subpath;
          tpl_path = os_path_join templates_dir candidate
      in if os_path_isfile w tpl_path \<and> endswith candidate ''.html''
         then render_or_static w candidate
         else render_or_static w ''index.html'')"

section \<open>Notions of the specification\<close>

text \<open>
  A cell \<^emph>\<open>read as a number\<close>: an integer or a float is its value as a float, a
  missing value is zero, anything else is not a number.  An integer whose nearest double
  is not finite has no reading.
\<close>

fun read_number :: "pyval \<Rightarrow> pyfloat option" where
  "read_number PNone = Some (Finite 0)"
| "read_number (PInt n) = (case rnd (of_int n) of Finite q \<Rightarrow> Some (Finite q) | _ \<Rightarrow> None)"
| "read_number (PFloat x) = Some x"
| "read_number v = None"

fun is_number :: "pyval \<Rightarrow> bool" where
  "is_number (PInt n) = True"
| "is_number (PFloat x) = True"
| "is_number v = False"

text \<open>\<^verbatim>\<open>v >= 0\<close> for a number \<open>v\<close>; false for NaN and for what is not a number.\<close>

fun py_ge0 :: "pyval \<Rightarrow> bool" where
  "py_ge0 (PInt n) = (0 \<le> n)"
| "py_ge0 (PFloat (Finite q)) = (0 \<le> q)"
| "py_ge0 (PFloat PInf) = True"
| "py_ge0 v = False"

text \<open>
  The cells that \<^verbatim>\<open>float(v or 0)\<close> accepts: \<^verbatim>\<open>None\<close> and the other falsy values,
  booleans, floats, integers with a finite nearest double, and strings in the syntax of
  \<^verbatim>\<open>float\<close>.
\<close>

fun accepted :: "pyval \<Rightarrow> bool" where
  "accepted PNone = True"
| "accepted (PBool b) = True"
| "accepted (PInt n) = (case rnd (of_int n) of Finite q \<Rightarrow> True | _ \<Rightarrow> False)"
| "accepted (PFloat x) = True"
| "accepted (PStr s) = (s = [] \<or> float_of_str s \<noteq> None)"
| "accepted (PList xs) = (xs = [])"
| "accepted (PDict kvs) = (kvs = [])"

text \<open>
  All four artifact files are present and unpickle (\<open>all_artifacts\<close>); a file whose
  pickle holds an object, not \<^verbatim>\<open>None\<close> (\<open>holds_object\<close>).
\<close>

fun unpickles :: "'a pkl_file \<Rightarrow> bool" where
  "unpickles (Pickled a) = True"
| "unpickles f = False"

fun holds_object :: "'a pkl_file \<Rightarrow> bool" where
  "holds_object (Pickled (Some a)) = True"
| "holds_object f = False"

definition all_artifacts :: "(string \<Rightarrow> 'a pkl_file) \<Rightarrow> bool" where
  "all_artifacts fs \<longleftrightarrow>
     unpickles (fs PREPROCESSOR_PKL) \<and> list_all (\<lambda>(k, p). unpickles (fs p)) MODEL_FILES"

text \<open>
  The models unpickled before the first model file that is missing or fails, in the
  order of \<open>MODEL_FILES\<close>.
\<close>

fun loaded_prefix ::
  "(string \<Rightarrow> 'a pkl_file) \<Rightarrow> (string \<times> string) list \<Rightarrow> (string \<times> 'a option) list" where
  "loaded_prefix fs [] = []"
| "loaded_prefix fs ((k, p) # kps) =
     (case fs p of
        Pickled a \<Rightarrow> (k, a) # loaded_prefix fs kps
      | _ \<Rightarrow> [])"

section \<open>Example inputs\<close>

text \<open>A payload with price 100, age 10 and weight 5, and one with non-positive results.\<close>

definition example_payload :: pyval where
  "example_payload = PDict [(''price'', PInt 100), (''age'', PInt 10), (''weight'', PInt 5)]"

definition negative_payload :: pyval where
  "negative_payload = PDict [(''price'', PInt (- 50)), (''age'', PInt 200), (''weight'', PInt (- 3))]"


definition row_of :: "pyval \<Rightarrow> item_record" where
  "row_of payload =
     (case build_input_df payload of
        Inr df \<Rightarrow> df
      | Inl e \<Rightarrow> \<lparr>Plastic_Type = PNone, Condition = PNone, Weight_Kg = PNone,
                   Age_Months = PNone, Original_Price = PNone, Location = PNone\<rparr>)"

text \<open>
  A runtime over artifacts that are numbers: the preprocessor passes the weight cell on,
  and model \<open>n\<close> predicts \<open>n\<close>.  Four directories: an empty one, a complete one, one
  where the second model file is missing, and a complete one whose preprocessor file
  holds the pickle of \<^verbatim>\<open>None\<close>.
\<close>

definition example_runtime :: "(nat, pyval, pyval) runtime" where
  "example_runtime =
     \<lparr>isna_list = (\<lambda>xs. Inl (ValueError ''The truth value of an array is ambiguous'')),
      transform = (\<lambda>a df. Inr (Weight_Kg df)),
      get_feature_names_out = (\<lambda>a. Inr [''f0'']),
      shape1 = (\<lambda>m. Inr 1),
      data_frame = (\<lambda>m cols. Inr m),
      predict_first = (\<lambda>a X. Inr (Finite (of_nat a)))\<rparr>"

definition no_files :: "string \<Rightarrow> nat pkl_file" where
  "no_files p = Absent"

definition all_files :: "string \<Rightarrow> nat pkl_file" where
  "all_files p =
     (if p = PREPROCESSOR_PKL then Pickled (Some 0)
      else case map_of (zip (map snd MODEL_FILES) [1, 2, 3]) p of
             Some n \<Rightarrow> Pickled (Some n)
           | None \<Rightarrow> Absent)"

definition partial_files :: "string \<Rightarrow> nat pkl_file" where
  "partial_files p =
     (if p = ''models/Recycle_Value_GradientBoosting_Model.pkl'' then Absent else all_files p)"

definition null_files :: "string \<Rightarrow> nat pkl_file" where
  "null_files p = (if p = ''models/preprocessor.pkl'' then Pickled None else all_files p)"

text \<open>A server whose only template is the home page.\<close>

definition example_web :: web where
  "example_web =
     \<lparr>os_path_isfile = (\<lambda>p. p = ''templates/index.html''),
      render_template = (\<lambda>fname. Inr (''<h1>'' @ fname @ ''</h1>'')),
      send_from_directory = (\<lambda>dir fname. Inr (Page 200 fname))\<rparr>"

section \<open>Evaluating the arithmetic\<close>

lemma bit_length_0 [simp]: "bit_length 0 = 0"
  by (simp add: bit_length.simps)

lemma bit_length_1 [simp]: "bit_length (Suc 0) = Suc 0"
  by (simp add: bit_length.simps)

lemma bit_length_numeral [simp]:
  "bit_length (numeral k) = Suc (bit_length (numeral k div 2))"
  by (subst bit_length.simps) simp

lemma floor_rat_numeral [simp]:
  "\<lfloor>numeral a / numeral b :: rat\<rfloor> = numeral a div numeral b"
  using floor_divide_of_int_eq [of "numeral a" "numeral b", where ?'a = rat] by simp

lemma ceiling_rat_numeral [simp]:
  "\<lceil>numeral a / numeral b :: rat\<rceil> = - (- numeral a div numeral b)"
  using ceiling_divide_eq_div [of "numeral a" "numeral b", where ?'a = rat] by simp

lemmas rnd_eval = rnd_def ilog2_def round_half_even_def pow2_def Let_def

lemma lit_0_2_eq: "lit_0_2 = Finite (3602879701896397 / 18014398509481984)"
  by (simp add: lit_0_2_def rnd_eval)

lemma lit_0_1_eq: "lit_0_1 = Finite (3602879701896397 / 36028797018963968)"
  by (simp add: lit_0_1_def rnd_eval)

lemma lit_12_0_eq: "lit_12_0 = Finite 12"
  by (simp add: lit_12_0_def rnd_eval)

lemma rnd_0 [simp]: "rnd 0 = Finite 0"
  by (simp add: rnd_def)

section \<open>Signs\<close>

lemma round_half_even_nonneg: "0 \<le> x \<Longrightarrow> 0 \<le> round_half_even x"
  by (auto simp: round_half_even_def Let_def)

lemma pow2_pos: "0 < pow2 k"
  by (simp add: pow2_def)

lemma rnd_nonneg: "0 \<le> q \<Longrightarrow> py_ge0 (PFloat (rnd q))"
  by (auto simp: rnd_def Let_def round_half_even_nonneg pow2_pos less_imp_le)

lemma fround2_nonneg: "fgt0 x \<Longrightarrow> py_ge0 (PFloat (fround2 x))"
  by (cases x) (auto intro!: rnd_nonneg round_half_even_nonneg)

lemma py_round2_max0_ge0: "py_ge0 (py_round2 (py_max0 x))"
  by (simp add: py_max0_def fround2_nonneg)

section \<open>The rounding is to a nearest binary64 number\<close>

text \<open>
  The exponent that \<open>ilog2\<close> computes is the position of the leading bit, and for
  \<open>q \<noteq> 0\<close> a finite \<open>rnd q\<close> is a multiple \<open>n * u\<close> of the spacing \<open>u\<close> at that
  exponent with at most 53 significant bits (\<open>\<bar>n\<bar> \<le> 2^53\<close>), at distance at most \<open>u / 2\<close>
  from \<open>q\<close>.
\<close>

lemma bit_length_pos: "0 < n \<Longrightarrow> 0 < bit_length n"
  by (simp add: bit_length.simps [of n])

lemma bit_length_bounds:
  "0 < n \<Longrightarrow> 2 ^ (bit_length n - 1) \<le> n \<and> n < 2 ^ bit_length n"
proof (induction n rule: bit_length.induct)
  case (1 n)
  show ?case
  proof (cases "n div 2 = 0")
    case True
    with "1.prems" have "n = 1" by (simp add: div_eq_0_iff)
    then show ?thesis by (simp add: bit_length.simps [of 1] bit_length.simps [of 0])
  next
    case False
    with "1.IH" "1.prems"
    have ih: "2 ^ (bit_length (n div 2) - 1) \<le> n div 2" "n div 2 < 2 ^ bit_length (n div 2)"
      by simp_all
    from False have pos: "0 < bit_length (n div 2)"
      by (simp add: bit_length_pos)
    have bl: "bit_length n = Suc (bit_length (n div 2))"
      using "1.prems" by (simp add: bit_length.simps [of n])
    have "2 * 2 ^ (bit_length (n div 2) - 1) \<le> n"
      using ih(1) by linarith
    moreover have "2 * 2 ^ (bit_length (n div 2) - 1) = (2::nat) ^ bit_length (n div 2)"
      using pos by (cases "bit_length (n div 2)") simp_all
    moreover have "n < 2 * 2 ^ bit_length (n div 2)"
      using ih(2) by linarith
    ultimately show ?thesis by (simp add: bl)
  qed
qed

lemma pow2_nat_bounds:
  fixes n :: nat
  assumes n: "0 < n"
  shows "(2::rat) ^ (bit_length n - 1) \<le> of_nat n \<and> (of_nat n :: rat) + 1 \<le> 2 ^ bit_length n"
proof -
  from bit_length_bounds [OF n]
  have b1: "2 ^ (bit_length n - 1) \<le> n" and b2: "n + 1 \<le> 2 ^ bit_length n"
    by auto
  have "(of_nat (2 ^ (bit_length n - 1)) :: rat) \<le> of_nat n"
    using b1 by (simp only: of_nat_le_iff)
  moreover have "(of_nat (n + 1) :: rat) \<le> of_nat (2 ^ bit_length n)"
    using b2 by (simp only: of_nat_le_iff)
  ultimately show ?thesis by simp
qed

lemma ilog2_bounds:
  assumes "0 < q"
  shows "pow2 (ilog2 q) \<le> q \<and> q < pow2 (ilog2 q + 1)"
proof (cases "1 \<le> q")
  case True
  define n where "n = nat \<lfloor>q\<rfloor>"
  from True have "1 \<le> \<lfloor>q\<rfloor>" by linarith
  then have n: "0 < n" and on: "(of_nat n :: rat) = of_int \<lfloor>q\<rfloor>"
    by (simp_all add: n_def)
  have fl: "of_nat n \<le> q" "q < of_nat n + 1"
    unfolding on by linarith+
  from pow2_nat_bounds [OF n] fl
  have lo: "2 ^ (bit_length n - 1) \<le> q" and hi: "q < 2 ^ bit_length n"
    by linarith+
  have e: "ilog2 q = int (bit_length n) - 1"
    using True by (simp add: ilog2_def n_def)
  from bit_length_pos [OF n] have "nat (int (bit_length n) - 1) = bit_length n - 1"
    and "0 \<le> int (bit_length n) - 1"
    by simp_all
  with lo hi show ?thesis
    by (simp add: e pow2_def)
next
  case False
  define m where "m = nat (\<lceil>1 / q\<rceil> - 1)"
  from False assms have p: "1 < 1 / q" by simp
  then have c2: "2 \<le> \<lceil>1 / q\<rceil>" by linarith
  then have nn: "0 \<le> \<lceil>1 / q\<rceil> - 1" and m: "0 < m"
    unfolding m_def by linarith+
  have "(of_nat m :: rat) = of_int (\<lceil>1 / q\<rceil> - 1)"
    unfolding m_def using nn by (rule of_nat_nat)
  then have om: "(of_nat m :: rat) = of_int \<lceil>1 / q\<rceil> - 1"
    by (simp only: of_int_diff of_int_1)
  have mq: "of_nat m < 1 / q" "1 / q \<le> of_nat m + 1"
    unfolding om by linarith+
  from pow2_nat_bounds [OF m] mq
  have lo: "2 ^ (bit_length m - 1) < 1 / q" and hi: "1 / q \<le> 2 ^ bit_length m"
    by linarith+
  from hi assms have 1: "1 / 2 ^ bit_length m \<le> q"
    by (simp add: field_simps)
  from lo assms have 2: "q < 1 / 2 ^ (bit_length m - 1)"
    by (simp add: field_simps)
  have e: "ilog2 q = - int (bit_length m)"
    using False by (simp add: ilog2_def m_def)
  have blpos: "0 < bit_length m" by (rule bit_length_pos [OF m])
  have 3: "pow2 (- int (bit_length m)) = 1 / 2 ^ bit_length m"
    using blpos by (simp add: pow2_def)
  have 4: "pow2 (1 - int (bit_length m)) = 1 / 2 ^ (bit_length m - 1)"
  proof (cases "bit_length m = 1")
    case True
    then show ?thesis by (simp add: pow2_def)
  next
    case False
    with blpos have "nat (int (bit_length m) - 1) = bit_length m - 1" "1 < bit_length m"
      by simp_all
    then show ?thesis by (simp add: pow2_def)
  qed
  from 1 2 show ?thesis by (simp add: e 3 4)
qed


lemma round_half_even_near: "\<bar>of_int (round_half_even x) - x\<bar> \<le> 1 / 2"
proof -
  have "of_int \<lfloor>x\<rfloor> \<le> x" and "x < of_int \<lfloor>x\<rfloor> + 1"
    by linarith+
  then show ?thesis
    by (auto simp: round_half_even_def Let_def abs_le_iff)
qed

lemma pow2_add: "pow2 (a + b) = pow2 a * pow2 b"
proof -
  have "pow2 k = 2 powi k" for k
    by (simp add: pow2_def power_int_def inverse_eq_divide power_one_over)
  then show ?thesis
    by (simp add: power_int_add)
qed

lemma pow2_mono: "a \<le> b \<Longrightarrow> pow2 a \<le> pow2 b"
proof -
  have "pow2 k = 2 powi k" for k
    by (simp add: pow2_def power_int_def inverse_eq_divide power_one_over)
  then show "a \<le> b \<Longrightarrow> pow2 a \<le> pow2 b"
    by (simp add: power_int_increasing)
qed

lemma rnd_nearest:
  assumes "q \<noteq> 0" and "rnd q = Finite r"
  defines "u \<equiv> pow2 (max (ilog2 \<bar>q\<bar>) (- 1022) - 52)"
  shows "\<exists>n. r = of_int n * u \<and> \<bar>n\<bar> \<le> 2 ^ 53 \<and> \<bar>r - q\<bar> \<le> u / 2"
proof -
  define e where "e = max (ilog2 \<bar>q\<bar>) (- 1022)"
  define n where "n = round_half_even (\<bar>q\<bar> * pow2 (52 - e))"
  have u: "u = pow2 (e - 52)" by (simp add: u_def e_def)
  have upos: "0 < u" by (simp add: u pow2_pos)
  have inv: "pow2 (52 - e) * u = 1"
    using pow2_add [of "52 - e" "e - 52"] by (simp add: u pow2_def)
  from assms(1,2) have r: "r = sgn q * (of_int n * u)"
    by (simp add: rnd_def Let_def e_def [symmetric] n_def [symmetric] u split: if_splits)
  have near: "\<bar>of_int n - \<bar>q\<bar> * pow2 (52 - e)\<bar> \<le> 1 / 2"
    unfolding n_def by (rule round_half_even_near)
  have "\<bar>of_int n * u - \<bar>q\<bar>\<bar> = \<bar>of_int n - \<bar>q\<bar> * pow2 (52 - e)\<bar> * u"
  proof -
    have "of_int n * u - \<bar>q\<bar> = (of_int n - \<bar>q\<bar> * pow2 (52 - e)) * u"
      using inv by (simp add: algebra_simps)
    then show ?thesis using upos by (simp add: abs_mult)
  qed
  also have "\<dots> \<le> 1 / 2 * u"
    using near upos by (intro mult_right_mono) simp_all
  finally have d: "\<bar>of_int n * u - \<bar>q\<bar>\<bar> \<le> u / 2" by simp
  have "\<bar>r - q\<bar> = \<bar>of_int n * u - \<bar>q\<bar>\<bar>"
  proof (cases "0 < q")
    case True
    then show ?thesis by (simp add: r)
  next
    case False
    with assms(1) have "q < 0" by simp
    then have "r - q = - (of_int n * u - \<bar>q\<bar>)" by (simp add: r)
    then show ?thesis by (simp only: abs_minus_cancel)
  qed
  with d have dist: "\<bar>r - q\<bar> \<le> u / 2" by simp
  have nn: "0 \<le> n"
    unfolding n_def by (intro round_half_even_nonneg mult_nonneg_nonneg) (simp_all add: pow2_pos less_imp_le)
  have "\<bar>q\<bar> < pow2 (ilog2 \<bar>q\<bar> + 1)"
    using ilog2_bounds [of "\<bar>q\<bar>"] assms(1) by simp
  also have "\<dots> \<le> pow2 (e + 1)"
    by (rule pow2_mono) (simp add: e_def)
  finally have "\<bar>q\<bar> * pow2 (52 - e) < pow2 (e + 1) * pow2 (52 - e)"
    by (simp add: pow2_pos)
  also have "\<dots> = pow2 53"
    using pow2_add [of "e + 1" "52 - e"] by simp
  finally have lt: "\<bar>q\<bar> * pow2 (52 - e) < 2 ^ 53"
    by (simp add: pow2_def)
  have "of_int n \<le> \<bar>q\<bar> * pow2 (52 - e) + 1 / 2"
    using near by linarith
  with lt have "(of_int n :: rat) < 2 ^ 53 + 1 / 2" by linarith
  then have "(of_int n :: rat) < of_int (2 ^ 53 + 1)" by simp
  then have "n < 2 ^ 53 + 1" by (simp only: of_int_less_iff)
  with nn have "\<bar>n\<bar> \<le> 2 ^ 53" by simp
  with r dist nn show ?thesis
  proof (cases "0 < q")
    case True
    with r have "r = of_int n * u" by simp
    with dist \<open>\<bar>n\<bar> \<le> 2 ^ 53\<close> show ?thesis by blast
  next
    case False
    with assms(1) have "q < 0" by simp
    with r have "r = of_int (- n) * u" by simp
    moreover from \<open>\<bar>n\<bar> \<le> 2 ^ 53\<close> have "\<bar>- n\<bar> \<le> 2 ^ 53" by simp
    ultimately show ?thesis using dist by blast
  qed
qed

section \<open>Reading a cell\<close>

lemma float_or_0_falsy: "\<not> truthy v \<Longrightarrow> float_or_0 v = Inr (Finite 0)"
  by (simp add: float_or_0_def py_or_def float_of_int_def)

lemma float_or_0_truthy: "truthy v \<Longrightarrow> float_or_0 v = py_float v"
  by (simp add: float_or_0_def py_or_def)

lemma read_number_float_or_0: "read_number v = Some x \<Longrightarrow> float_or_0 v = Inr x"
proof (cases v)
  case (PInt n)
  assume r: "read_number v = Some x"
  show ?thesis
  proof (cases "n = 0")
    case True
    with PInt r show ?thesis by (simp add: float_or_0_falsy)
  next
    case False
    with PInt r show ?thesis
      by (auto simp: float_or_0_truthy float_of_int_def split: pyfloat.splits)
  qed
next
  case (PFloat y)
  assume r: "read_number v = Some x"
  show ?thesis
  proof (cases "fnonzero y")
    case True
    with PFloat r show ?thesis by (simp add: float_or_0_truthy)
  next
    case False
    then have y: "y = Finite 0" by (cases y) simp_all
    then have "float_or_0 (PFloat y) = Inr (Finite 0)" by (simp add: float_or_0_falsy)
    with PFloat r y show ?thesis by simp
  qed
qed (simp_all add: float_or_0_falsy)

lemma float_or_0_accepted: "(\<exists>x. float_or_0 v = Inr x) \<longleftrightarrow> accepted v"
proof (cases "truthy v")
  case False
  then have "accepted v" by (cases v) simp_all
  with False show ?thesis by (simp add: float_or_0_falsy)
next
  case True
  then show ?thesis
    by (cases v) (auto simp: float_or_0_truthy float_of_int_def split: pyfloat.splits option.splits)
qed

section \<open>The fallback\<close>

lemma fallback_formula:
  "float_or_0 (Original_Price r) = Inr price \<Longrightarrow> float_or_0 (Weight_Kg r) = Inr weight \<Longrightarrow>
   float_or_0 (Age_Months r) = Inr age \<Longrightarrow>
   fallback r =
     Inr [(''Resale_Value'', py_round2 (py_max0 (fsub (fmul price lit_0_2) (fmul age lit_0_1)))),
          (''Recycle_Value'', py_round2 (py_max0 (fmul weight lit_12_0))),
          (''Reuse_Score'', py_round2 (py_max0 (fsub (Finite 100) age)))]"
  by (simp add: fallback_def)

lemma fallback_returns_iff:
  "(\<exists>out. fallback r = Inr out) \<longleftrightarrow>
   accepted (Original_Price r) \<and> accepted (Weight_Kg r) \<and> accepted (Age_Months r)"
  unfolding float_or_0_accepted [symmetric]
  by (auto simp: fallback_def split: sum.splits)

lemma fallback_ge0:
  assumes "fallback r = Inr out"
  shows "\<exists>a b c. out = [(''Resale_Value'', a), (''Recycle_Value'', b), (''Reuse_Score'', c)]
           \<and> py_ge0 a \<and> py_ge0 b \<and> py_ge0 c"
  using assms by (auto simp: fallback_def py_round2_max0_ge0 split: sum.splits)

lemma unloaded_fallback: "\<not> models_loaded st \<Longrightarrow> predict_all_targets rt st r = fallback r"
  by (simp add: predict_all_targets_def split: option.splits)

section \<open>Condition vocabulary\<close>



section \<open>The fallback formula\<close>



text \<open>
  Claim C7.  In fallback mode, for numeric price, age and weight cells of any sign
  (integers or floats, NaN and the infinities included), every result that
  \<^verbatim>\<open>predict_all_targets\<close> returns has three entries, each \<open>\<ge> 0\<close>; it returns one unless
  an integer cell is too large for \<^verbatim>\<open>float\<close>; and when the cells read as \<open>-50\<close>,
  \<open>200\<close> and \<open>-3\<close> the three entries are the integer 0.
\<close>

theorem fallback_nonneg:
  assumes "\<not> models_loaded st"
    and "is_number (Original_Price r)" and "is_number (Age_Months r)" and "is_number (Weight_Kg r)"
  shows "(\<forall>out. predict_all_targets rt st r = Inr out \<longrightarrow>
            (\<exists>a b c. out = [(''Resale_Value'', a), (''Recycle_Value'', b), (''Reuse_Score'', c)]
               \<and> py_ge0 a \<and> py_ge0 b \<and> py_ge0 c))
         \<and> ((\<exists>out. predict_all_targets rt st r = Inr out) \<longleftrightarrow>
              read_number (Original_Price r) \<noteq> None \<and> read_number (Weight_Kg r) \<noteq> None
              \<and> read_number (Age_Months r) \<noteq> None)
         \<and> (read_number (Original_Price r) = Some (Finite (- 50))
              \<and> read_number (Age_Months r) = Some (Finite 200)
              \<and> read_number (Weight_Kg r) = Some (Finite (- 3)) \<longrightarrow>
              predict_all_targets rt st r =
                Inr [(''Resale_Value'', PInt 0), (''Recycle_Value'', PInt 0), (''Reuse_Score'', PInt 0)])"
proof (intro conjI allI impI)
  fix out
  assume "predict_all_targets rt st r = Inr out"
  with assms(1) have "fallback r = Inr out" by (simp add: unloaded_fallback)
  then show "\<exists>a b c. out = [(''Resale_Value'', a), (''Recycle_Value'', b), (''Reuse_Score'', c)]
               \<and> py_ge0 a \<and> py_ge0 b \<and> py_ge0 c"
    by (rule fallback_ge0)
next
  have acc: "accepted v \<longleftrightarrow> read_number v \<noteq> None" if "is_number v" for v
    using that by (cases v) (simp_all split: pyfloat.splits)
  show "(\<exists>out. predict_all_targets rt st r = Inr out) \<longleftrightarrow>
          read_number (Original_Price r) \<noteq> None \<and> read_number (Weight_Kg r) \<noteq> None
          \<and> read_number (Age_Months r) \<noteq> None"
    using assms by (simp add: unloaded_fallback fallback_returns_iff acc)
next
  assume "read_number (Original_Price r) = Some (Finite (- 50))
      \<and> read_number (Age_Months r) = Some (Finite 200)
      \<and> read_number (Weight_Kg r) = Some (Finite (- 3))"
  then have "float_or_0 (Original_Price r) = Inr (Finite (- 50))"
    and "float_or_0 (Weight_Kg r) = Inr (Finite (- 3))"
    and "float_or_0 (Age_Months r) = Inr (Finite 200)"
    by (simp_all add: read_number_float_or_0)
  then have "fallback r =
      Inr [(''Resale_Value'', py_round2 (py_max0 (fsub (fmul (Finite (- 50)) lit_0_2) (fmul (Finite 200) lit_0_1)))),
           (''Recycle_Value'', py_round2 (py_max0 (fmul (Finite (- 3)) lit_12_0))),
           (''Reuse_Score'', py_round2 (py_max0 (fsub (Finite 100) (Finite 200))))]"
    by (rule fallback_formula)
  with assms(1) show "predict_all_targets rt st r =
      Inr [(''Resale_Value'', PInt 0), (''Recycle_Value'', PInt 0), (''Reuse_Score'', PInt 0)]"
    by (simp add: unloaded_fallback lit_0_2_eq lit_0_1_eq lit_12_0_eq py_max0_def rnd_eval)
qed

theorem fallback_nonneg_witness:
  "\<not> models_loaded (initial_bundle :: nat model_bundle)
   \<and> is_number (Original_Price (row_of negative_payload))
   \<and> is_number (Age_Months (row_of negative_payload))
   \<and> is_number (Weight_Kg (row_of negative_payload))
   \<and> predict_all_targets example_runtime initial_bundle (row_of negative_payload) =
        Inr [(''Resale_Value'', PInt 0), (''Recycle_Value'', PInt 0), (''Reuse_Score'', PInt 0)]
   \<and> py_ge0 (PInt 0)"
proof -
  have a: "\<not> models_loaded (initial_bundle :: nat model_bundle)"
    by (simp add: initial_bundle_def)
  have b: "is_number (Original_Price (row_of negative_payload))"
    and c: "is_number (Age_Months (row_of negative_payload))"
    and d: "is_number (Weight_Kg (row_of negative_payload))"
    by (simp_all add: row_of_def negative_payload_def dict_get_def)
  have e: "read_number (Original_Price (row_of negative_payload)) = Some (Finite (- 50))
           \<and> read_number (Age_Months (row_of negative_payload)) = Some (Finite 200)
           \<and> read_number (Weight_Kg (row_of negative_payload)) = Some (Finite (- 3))"
    by (simp add: row_of_def negative_payload_def dict_get_def rnd_eval)
  have "predict_all_targets example_runtime initial_bundle (row_of negative_payload) =
        Inr [(''Resale_Value'', PInt 0), (''Recycle_Value'', PInt 0), (''Reuse_Score'', PInt 0)]"
    using conjunct2 [OF conjunct2 [OF fallback_nonneg [OF a b c d, of example_runtime]]] e
    by blast
  with a b c d show ?thesis by simp
qed

section \<open>Decimal digit strings\<close>

















section \<open>Coercion of the cells\<close>







section \<open>The loader\<close>

lemma load_models_Cons:
  "load_models fs ((k, p) # kps) st =
     (case fs p of
        Pickled a \<Rightarrow> load_models fs kps (st\<lparr>models := dict_set (models st) k a\<rparr>)
      | Corrupt e \<Rightarrow> (st, Some e)
      | Absent \<Rightarrow> (st, Some (FileNotFoundError p)))"
  by (cases "fs p") simp_all

lemma load_models_fields:
  "preprocessor (fst (load_models fs kps st)) = preprocessor st
   \<and> models_loaded (fst (load_models fs kps st)) = models_loaded st"
proof (induction kps arbitrary: st)
  case Nil
  show ?case by simp
next
  case (Cons kp kps)
  obtain k p where kp: "kp = (k, p)" by (cases kp)
  show ?case
    unfolding kp load_models_Cons
    by (cases "fs p") (simp_all add: Cons.IH)
qed

lemma load_models_raises:
  "snd (load_models fs kps st) = None \<longleftrightarrow> list_all (\<lambda>(k, p). unpickles (fs p)) kps"
proof (induction kps arbitrary: st)
  case Nil
  show ?case by simp
next
  case (Cons kp kps)
  obtain k p where kp: "kp = (k, p)" by (cases kp)
  show ?case
    unfolding kp load_models_Cons
    by (cases "fs p") (simp_all add: Cons.IH)
qed

lemma dict_set_new: "k \<notin> fst ` set kvs \<Longrightarrow> dict_set kvs k v = kvs @ [(k, v)]"
  by (induction kvs) auto

lemma load_models_models:
  "distinct (map fst kps) \<Longrightarrow> fst ` set (models st) \<inter> fst ` set kps = {} \<Longrightarrow>
   models (fst (load_models fs kps st)) = models st @ loaded_prefix fs kps"
proof (induction kps arbitrary: st)
  case Nil
  show ?case by simp
next
  case (Cons kp kps)
  obtain k p where kp: "kp = (k, p)" by (cases kp)
  show ?case
  proof (cases "fs p")
    case (Pickled a)
    let ?st = "st\<lparr>models := dict_set (models st) k a\<rparr>"
    have new: "k \<notin> fst ` set (models st)"
      using Cons.prems(2) kp by auto
    then have m: "models ?st = models st @ [(k, a)]"
      by (simp add: dict_set_new)
    have "distinct (map fst kps)" and "fst ` set (models ?st) \<inter> fst ` set kps = {}"
      using Cons.prems kp by (auto simp: m)
    then have "models (fst (load_models fs kps ?st)) = models ?st @ loaded_prefix fs kps"
      by (rule Cons.IH)
    with Pickled show ?thesis
      by (simp add: kp m)
  qed (simp_all add: kp)
qed

lemma startup_state:
  "startup fs =
     \<lparr>preprocessor = (case fs PREPROCESSOR_PKL of Pickled a \<Rightarrow> a | _ \<Rightarrow> None),
      models = (if unpickles (fs PREPROCESSOR_PKL) then loaded_prefix fs MODEL_FILES else []),
      models_loaded = all_artifacts fs\<rparr>"
proof (cases "fs PREPROCESSOR_PKL")
  case (Pickled a)
  let ?st1 = "(initial_bundle :: 'a model_bundle)\<lparr>preprocessor := a\<rparr>"
  have lp: "load_preprocessor fs initial_bundle = (?st1, None)"
    using Pickled by (simp add: load_preprocessor_def)
  obtain st2 err where lm: "load_models fs MODEL_FILES ?st1 = (st2, err)"
    by (cases "load_models fs MODEL_FILES ?st1")
  have d: "distinct (map fst MODEL_FILES)"
    by (simp add: MODEL_FILES_def)
  have p: "preprocessor st2 = a" and l: "models_loaded st2 = False"
    using load_models_fields [of fs MODEL_FILES ?st1] lm by (simp_all add: initial_bundle_def)
  have m: "models st2 = loaded_prefix fs MODEL_FILES"
    using load_models_models [OF d, of ?st1 fs] lm by (simp add: initial_bundle_def)
  have e: "err = None \<longleftrightarrow> all_artifacts fs"
    using load_models_raises [of fs MODEL_FILES ?st1] lm Pickled by (simp add: all_artifacts_def)
  show ?thesis
    using Pickled p l m e
    by (cases err) (simp_all add: startup_def try_load_models_def lp lm)
qed (simp_all add: startup_def try_load_models_def load_preprocessor_def initial_bundle_def
      all_artifacts_def)

lemma loaded_prefix_all:
  "list_all (\<lambda>(k, p). unpickles (fs p)) kps \<Longrightarrow> map fst (loaded_prefix fs kps) = map fst kps"
  by (induction fs kps rule: loaded_prefix.induct) (auto split: pkl_file.splits)

lemma startup_flag: "models_loaded (startup fs) \<longleftrightarrow> all_artifacts fs"
  by (simp add: startup_state)

lemma startup_mode:
  "model_backed_mode (startup fs) \<longleftrightarrow>
     models_loaded (startup fs) \<and> holds_object (fs PREPROCESSOR_PKL)"
proof (cases "all_artifacts fs")
  case True
  then have "map fst (loaded_prefix fs MODEL_FILES) = map fst MODEL_FILES"
    by (simp add: all_artifacts_def loaded_prefix_all)
  then have ne: "loaded_prefix fs MODEL_FILES \<noteq> []"
    by (auto simp: MODEL_FILES_def)
  from True obtain a where a: "fs PREPROCESSOR_PKL = Pickled a"
    by (cases "fs PREPROCESSOR_PKL") (simp_all add: all_artifacts_def)
  with True ne show ?thesis
    by (cases a) (simp_all add: startup_state model_backed_mode_def)
next
  case False
  then show ?thesis
    by (simp add: startup_state model_backed_mode_def)
qed

lemma reachable_startup: "reachable rt fs st \<Longrightarrow> st = startup fs"
  by (induction rule: reachable.induct) (simp_all add: serve_predict_def)

lemma predict_all_targets_mode:
  "predict_all_targets rt st r =
     (if model_backed_mode st then
        (case preprocessor st of
           Some pre \<Rightarrow> model_backed rt pre (models st) r
         | None \<Rightarrow> fallback r)
      else fallback r)"
  by (simp add: predict_all_targets_def model_backed_mode_def split: option.splits)


lemma predict_models_shape:
  "predict_models rt X ms = Inr out \<Longrightarrow>
   map fst out = map fst ms \<and> list_all (\<lambda>(k, v). is_number v) out"
proof (induction ms arbitrary: out)
  case Nil
  then show ?case by simp
next
  case (Cons km ms)
  obtain k m where km: "km = (k, m)" by (cases km)
  from Cons.prems show ?case
    unfolding km
    by (auto split: sum.splits dest: Cons.IH)
qed

lemma model_backed_shape:
  assumes "model_backed rt pre ms r = Inr out"
  shows "map fst out = map fst ms \<and> list_all (\<lambda>(k, v). is_number v) out"
  using assms
  by (auto simp: model_backed_def split: sum.splits dest: predict_models_shape)

lemma three_entries:
  assumes "map fst out = [k1, k2, k3]"
  shows "\<exists>a b c. out = [(k1, a), (k2, b), (k3, c)]"
proof -
  from assms obtain x y z where "out = [x, y, z]"
    by (cases out; cases "tl out"; cases "tl (tl out)") auto
  with assms show ?thesis by (cases x; cases y; cases z) auto
qed

lemma pipeline_shape:
  assumes "predict_all_targets rt (startup fs) r = Inr preds"
  shows "\<exists>a b c. preds = [(''Resale_Value'', a), (''Recycle_Value'', b), (''Reuse_Score'', c)]
           \<and> is_number a \<and> is_number b \<and> is_number c"
proof (cases "model_backed_mode (startup fs)")
  case False
  with assms have "fallback r = Inr preds" by (simp add: predict_all_targets_mode)
  then show ?thesis
    by (auto simp: fallback_def py_max0_def split: sum.splits)
next
  case True
  then have all: "all_artifacts fs" by (simp add: startup_mode startup_flag)
  from True obtain pre where pre: "preprocessor (startup fs) = Some pre"
    by (auto simp: model_backed_mode_def)
  have keys: "map fst (models (startup fs)) = [''Resale_Value'', ''Recycle_Value'', ''Reuse_Score'']"
    using all by (simp add: startup_state all_artifacts_def loaded_prefix_all) (simp add: MODEL_FILES_def)
  from True assms pre have "model_backed rt pre (models (startup fs)) r = Inr preds"
    by (simp add: predict_all_targets_mode)
  then have sh: "map fst preds = [''Resale_Value'', ''Recycle_Value'', ''Reuse_Score'']"
    and nums: "list_all (\<lambda>(k, v). is_number v) preds"
    using model_backed_shape keys by fastforce+
  from three_entries [OF sh] obtain a b c
    where "preds = [(''Resale_Value'', a), (''Recycle_Value'', b), (''Reuse_Score'', c)]"
    by blast
  with nums show ?thesis by simp
qed

lemma try_load_models_flag: "models_loaded (try_load_models fs st) \<longleftrightarrow> all_artifacts fs"
proof (cases "fs PREPROCESSOR_PKL")
  case (Pickled a)
  let ?st1 = "st\<lparr>preprocessor := a\<rparr>"
  have lp: "load_preprocessor fs st = (?st1, None)"
    using Pickled by (simp add: load_preprocessor_def)
  obtain st2 err where lm: "load_models fs MODEL_FILES ?st1 = (st2, err)"
    by (cases "load_models fs MODEL_FILES ?st1")
  have "err = None \<longleftrightarrow> all_artifacts fs"
    using load_models_raises [of fs MODEL_FILES ?st1] lm Pickled by (simp add: all_artifacts_def)
  then show ?thesis
    by (cases err) (simp_all add: try_load_models_def lp lm)
qed (simp_all add: try_load_models_def load_preprocessor_def all_artifacts_def)

lemma example_files:
  "all_files ''models/preprocessor.pkl'' = Pickled (Some 0)"
  "all_files ''models/Resale_Value_GradientBoosting_Model.pkl'' = Pickled (Some 1)"
  "all_files ''models/Recycle_Value_GradientBoosting_Model.pkl'' = Pickled (Some 2)"
  "all_files ''models/Reuse_Score_GradientBoosting_Model.pkl'' = Pickled (Some 3)"
  "MODEL_FILES =
     [(''Resale_Value'', ''models/Resale_Value_GradientBoosting_Model.pkl''),
      (''Recycle_Value'', ''models/Recycle_Value_GradientBoosting_Model.pkl''),
      (''Reuse_Score'', ''models/Reuse_Score_GradientBoosting_Model.pkl'')]"
  "PREPROCESSOR_PKL = ''models/preprocessor.pkl''"
  by (simp_all add: all_files_def PREPROCESSOR_PKL_def MODEL_FILES_def MODELS_DIR_def os_path_join_def)

lemma example_startups:
  "startup all_files =
     \<lparr>preprocessor = Some 0,
      models = [(''Resale_Value'', Some 1), (''Recycle_Value'', Some 2), (''Reuse_Score'', Some 3)],
      models_loaded = True\<rparr>"
  "startup partial_files =
     \<lparr>preprocessor = Some 0, models = [(''Resale_Value'', Some 1)], models_loaded = False\<rparr>"
  "startup no_files = \<lparr>preprocessor = None, models = [], models_loaded = False\<rparr>"
  "startup null_files =
     \<lparr>preprocessor = None,
      models = [(''Resale_Value'', Some 1), (''Recycle_Value'', Some 2), (''Reuse_Score'', Some 3)],
      models_loaded = True\<rparr>"
  by (simp_all add: startup_state all_artifacts_def partial_files_def no_files_def null_files_def
      example_files)

section \<open>Loading and the two modes\<close>

text \<open>
  Claim C5, as amended.  In every state of the server after start-up, the flag
  \<open>models_loaded\<close> is true exactly when the preprocessing artifact and the three models
  were all unpickled; the condition of the \<^verbatim>\<open>if\<close> in \<^verbatim>\<open>predict_all_targets\<close> holds
  exactly when the flag is true and the preprocessor file did not unpickle to \<^verbatim>\<open>None\<close>,
  so that the model-backed branch runs in that case and the fallback otherwise; and
  serving a prediction leaves the bundle, hence the mode, as it was.
\<close>

theorem loaded_flag_and_mode:
  assumes "reachable rt fs st"
  shows "(models_loaded st \<longleftrightarrow> all_artifacts fs)
       \<and> (model_backed_mode st \<longleftrightarrow> models_loaded st \<and> holds_object (fs PREPROCESSOR_PKL))
       \<and> (model_backed_mode st \<longrightarrow>
            (\<exists>pre. preprocessor st = Some pre
               \<and> (\<forall>r. predict_all_targets rt st r = model_backed rt pre (models st) r)))
       \<and> (\<not> model_backed_mode st \<longrightarrow> (\<forall>r. predict_all_targets rt st r = fallback r))
       \<and> (\<forall>req. snd (serve_predict rt st req) = st)"
proof -
  from assms have st: "st = startup fs" by (rule reachable_startup)
  have 1: "models_loaded st \<longleftrightarrow> all_artifacts fs"
    by (simp add: st startup_state)
  have 2: "model_backed_mode st \<longleftrightarrow> models_loaded st \<and> holds_object (fs PREPROCESSOR_PKL)"
    by (simp add: st startup_mode)
  have 3: "\<exists>pre. preprocessor st = Some pre
      \<and> (\<forall>r. predict_all_targets rt st r = model_backed rt pre (models st) r)"
    if m: "model_backed_mode st"
  proof -
    from m obtain pre where "preprocessor st = Some pre"
      by (auto simp: model_backed_mode_def)
    with m show ?thesis by (simp add: predict_all_targets_mode)
  qed
  have 4: "\<forall>r. predict_all_targets rt st r = fallback r" if "\<not> model_backed_mode st"
    using that by (simp add: predict_all_targets_mode)
  have 5: "\<forall>req. snd (serve_predict rt st req) = st"
    by (simp add: serve_predict_def)
  from 1 2 3 4 5 show ?thesis by blast
qed

theorem loaded_flag_and_mode_witness:
  "reachable example_runtime all_files (startup all_files)
   \<and> all_artifacts all_files
   \<and> holds_object (all_files PREPROCESSOR_PKL)
   \<and> models_loaded (startup all_files)
   \<and> model_backed_mode (startup all_files)
   \<and> reachable example_runtime no_files (startup no_files)
   \<and> \<not> all_artifacts no_files
   \<and> \<not> models_loaded (startup no_files)
   \<and> \<not> model_backed_mode (startup no_files)"
proof -
  have r1: "reachable example_runtime all_files (startup all_files)"
    and r2: "reachable example_runtime no_files (startup no_files)"
    by (rule after_startup)+
  have a1: "all_artifacts all_files" and h1: "holds_object (all_files PREPROCESSOR_PKL)"
    by (simp_all add: all_artifacts_def example_files)
  have a2: "\<not> all_artifacts no_files"
    by (simp add: all_artifacts_def no_files_def)
  from loaded_flag_and_mode [OF r1] a1 h1
  have "models_loaded (startup all_files) \<and> model_backed_mode (startup all_files)"
    by blast
  moreover from loaded_flag_and_mode [OF r2] a2
  have "\<not> models_loaded (startup no_files) \<and> \<not> model_backed_mode (startup no_files)"
    by blast
  ultimately show ?thesis using r1 r2 a1 a2 h1 by simp
qed

text \<open>
  The claim C5 as stated fails: when all four files unpickle and the preprocessor file
  holds \<^verbatim>\<open>None\<close>, the flag is true after start-up and the prediction takes the
  fallback.
\<close>

theorem loaded_but_fallback:
  "reachable example_runtime null_files (startup null_files)
   \<and> all_artifacts null_files
   \<and> models_loaded (startup null_files)
   \<and> \<not> model_backed_mode (startup null_files)
   \<and> predict_all_targets example_runtime (startup null_files) (row_of example_payload) =
       fallback (row_of example_payload)"
proof -
  have "reachable example_runtime null_files (startup null_files)"
    by (rule after_startup)
  moreover have "all_artifacts null_files"
    by (simp add: all_artifacts_def null_files_def example_files)
  ultimately show ?thesis
    by (simp add: example_startups model_backed_mode_def predict_all_targets_def)
qed

text \<open>
  Claim C6, as amended.  If any of the four artifact files is missing or fails to
  unpickle, \<^verbatim>\<open>try_load_models\<close> leaves the flag false, whatever the bundle held before,
  and raises nothing (its result is a bundle: the handler catches every exception).
  After start-up the prediction then always takes the fallback.  The artifacts unpickled
  before the failure stay in the bundle: the preprocessor if its file was read, and the
  models read before the first failing model file.
\<close>

theorem failed_load_state:
  assumes "\<not> all_artifacts fs"
  shows "\<not> models_loaded (try_load_models fs st)
       \<and> \<not> models_loaded (startup fs)
       \<and> \<not> model_backed_mode (startup fs)
       \<and> preprocessor (startup fs) = (case fs PREPROCESSOR_PKL of Pickled a \<Rightarrow> a | _ \<Rightarrow> None)
       \<and> models (startup fs) =
           (if unpickles (fs PREPROCESSOR_PKL) then loaded_prefix fs MODEL_FILES else [])
       \<and> (\<forall>r. predict_all_targets rt (startup fs) r = fallback r)"
proof -
  have 1: "\<not> models_loaded (try_load_models fs st)"
    using assms by (simp add: try_load_models_flag)
  have 2: "\<not> models_loaded (startup fs)"
    using assms by (simp add: startup_state)
  then have 3: "\<not> model_backed_mode (startup fs)"
    by (simp add: startup_mode)
  from 2 have 4: "\<forall>r. predict_all_targets rt (startup fs) r = fallback r"
    by (simp add: unloaded_fallback)
  from 1 2 3 4 show ?thesis
    by (simp add: startup_state)
qed

theorem failed_load_state_witness:
  "\<not> all_artifacts partial_files
   \<and> \<not> models_loaded (startup partial_files)
   \<and> \<not> model_backed_mode (startup partial_files)
   \<and> predict_all_targets example_runtime (startup partial_files) (row_of example_payload) =
       fallback (row_of example_payload)"
proof -
  have a: "\<not> all_artifacts partial_files"
    by (simp add: all_artifacts_def partial_files_def example_files)
  from failed_load_state [OF a, of initial_bundle example_runtime] a
  show ?thesis by blast
qed

text \<open>
  The claim C6 as stated fails: when only the second model file is missing, the
  preprocessor and the first model are still in the bundle after loading.
\<close>

theorem partial_load_retained:
  "\<not> all_artifacts partial_files
   \<and> preprocessor (startup partial_files) = Some 0
   \<and> models (startup partial_files) = [(''Resale_Value'', Some 1)]
   \<and> models (startup partial_files) \<noteq> []"
  by (simp add: example_startups) (simp add: all_artifacts_def partial_files_def example_files)

section \<open>Responses of \<^verbatim>\<open>POST /predict\<close>\<close>

text \<open>
  Claim C4, as amended.  In every state of the server after start-up: when the body
  does not parse the response is 400 with \<^verbatim>\<open>{"error": "Invalid JSON"}\<close>; when the
  mapper or the pipeline raises \<open>e'\<close> it is 500 with the error \<^verbatim>\<open>Prediction failed\<close>
  and the message of \<open>e'\<close> as details; otherwise it is 200 with exactly the keys
  \<^verbatim>\<open>resale_value\<close>, \<^verbatim>\<open>recycle_score\<close>, \<^verbatim>\<open>reuse_score\<close>, holding the three numbers of
  the pipeline, and \<^verbatim>\<open>models_loaded\<close>, holding the flag.  The flag tells whether the
  model-backed branch ran whenever the preprocessor file did not unpickle to \<^verbatim>\<open>None\<close>.
\<close>

theorem predict_responses:
  assumes "reachable rt fs st"
  shows "predict rt st (Inl e) = \<lparr>status = 400, json = [(''error'', PStr ''Invalid JSON'')]\<rparr>
       \<and> (run_pipeline rt st payload = Inl e' \<longrightarrow>
            predict rt st (Inr payload) =
              \<lparr>status = 500,
               json = [(''error'', PStr ''Prediction failed''), (''details'', PStr (str_exc e'))]\<rparr>)
       \<and> (run_pipeline rt st payload = Inr preds \<longrightarrow>
            (\<exists>a b c. preds = [(''Resale_Value'', a), (''Recycle_Value'', b), (''Reuse_Score'', c)]
               \<and> is_number a \<and> is_number b \<and> is_number c
               \<and> predict rt st (Inr payload) =
                   \<lparr>status = 200,
                    json = [(''resale_value'', a), (''recycle_score'', b), (''reuse_score'', c),
                            (''models_loaded'', PBool (models_loaded st))]\<rparr>))
       \<and> (fs PREPROCESSOR_PKL \<noteq> Pickled None \<longrightarrow> (models_loaded st \<longleftrightarrow> model_backed_mode st))"
proof (intro conjI impI)
  show "predict rt st (Inl e) = \<lparr>status = 400, json = [(''error'', PStr ''Invalid JSON'')]\<rparr>"
    by (simp add: predict_def)
next
  assume "run_pipeline rt st payload = Inl e'"
  then show "predict rt st (Inr payload) =
      \<lparr>status = 500,
       json = [(''error'', PStr ''Prediction failed''), (''details'', PStr (str_exc e'))]\<rparr>"
    by (simp add: predict_def)
next
  from assms have st: "st = startup fs" by (rule reachable_startup)
  {
    assume n: "fs PREPROCESSOR_PKL \<noteq> Pickled None"
    have "all_artifacts fs \<longrightarrow> holds_object (fs PREPROCESSOR_PKL)"
    proof (cases "fs PREPROCESSOR_PKL")
      case (Pickled a)
      with n show ?thesis by (cases a) simp_all
    qed (simp_all add: all_artifacts_def)
    then show "models_loaded st \<longleftrightarrow> model_backed_mode st"
      by (auto simp: st startup_mode startup_flag)
  }
  assume p: "run_pipeline rt st payload = Inr preds"
  then obtain df where "predict_all_targets rt st df = Inr preds"
    by (auto simp: run_pipeline_def split: sum.splits)
  with st have "\<exists>a b c. preds = [(''Resale_Value'', a), (''Recycle_Value'', b), (''Reuse_Score'', c)]
      \<and> is_number a \<and> is_number b \<and> is_number c"
    by (simp add: pipeline_shape)
  then obtain a b c
    where preds: "preds = [(''Resale_Value'', a), (''Recycle_Value'', b), (''Reuse_Score'', c)]"
      and nums: "is_number a" "is_number b" "is_number c"
    by blast
  have "predict rt st (Inr payload) =
      \<lparr>status = 200,
       json = [(''resale_value'', a), (''recycle_score'', b), (''reuse_score'', c),
               (''models_loaded'', PBool (models_loaded st))]\<rparr>"
    using p by (simp add: predict_def preds dict_get_def)
  with preds nums
  show "\<exists>a b c. preds = [(''Resale_Value'', a), (''Recycle_Value'', b), (''Reuse_Score'', c)]
      \<and> is_number a \<and> is_number b \<and> is_number c
      \<and> predict rt st (Inr payload) =
          \<lparr>status = 200,
           json = [(''resale_value'', a), (''recycle_score'', b), (''reuse_score'', c),
                   (''models_loaded'', PBool (models_loaded st))]\<rparr>"
    by blast
qed

lemma example_pipeline:
  "run_pipeline example_runtime (startup no_files) example_payload =
     Inr [(''Resale_Value'', PFloat (Finite 19)), (''Recycle_Value'', PFloat (Finite 60)),
          (''Reuse_Score'', PFloat (Finite 90))]"
  "run_pipeline example_runtime (startup all_files) example_payload =
     Inr [(''Resale_Value'', PFloat (Finite 1)), (''Recycle_Value'', PFloat (Finite 2)),
          (''Reuse_Score'', PFloat (Finite 3))]"
  "run_pipeline example_runtime (startup no_files) (PList []) =
     Inl (AttributeError ([CHR 0x27] @ ''list'' @ [CHR 0x27] @ '' object has no attribute '' @
                          [CHR 0x27] @ ''get'' @ [CHR 0x27]))"
proof -
  have b: "build_input_df example_payload = Inr (row_of example_payload)"
    by (simp add: row_of_def example_payload_def)
  have f: "fallback (row_of example_payload) =
      Inr [(''Resale_Value'', PFloat (Finite 19)), (''Recycle_Value'', PFloat (Finite 60)),
           (''Reuse_Score'', PFloat (Finite 90))]"
    by (simp add: fallback_def float_or_0_truthy float_of_int_def row_of_def example_payload_def
        dict_get_def lit_0_2_eq lit_0_1_eq lit_12_0_eq py_max0_def rnd_eval)
  show "run_pipeline example_runtime (startup no_files) example_payload =
     Inr [(''Resale_Value'', PFloat (Finite 19)), (''Recycle_Value'', PFloat (Finite 60)),
          (''Reuse_Score'', PFloat (Finite 90))]"
    by (simp add: run_pipeline_def b unloaded_fallback example_startups f)
  show "run_pipeline example_runtime (startup all_files) example_payload =
     Inr [(''Resale_Value'', PFloat (Finite 1)), (''Recycle_Value'', PFloat (Finite 2)),
          (''Reuse_Score'', PFloat (Finite 3))]"
    by (simp add: run_pipeline_def example_startups predict_all_targets_def example_payload_def
        model_backed_def model_predict_def map_cond_def dict_get_def example_runtime_def)
  show "run_pipeline example_runtime (startup no_files) (PList []) =
     Inl (AttributeError ([CHR 0x27] @ ''list'' @ [CHR 0x27] @ '' object has no attribute '' @
                          [CHR 0x27] @ ''get'' @ [CHR 0x27]))"
    by (simp add: run_pipeline_def no_attribute_def)
qed

theorem predict_responses_witness:
  "reachable example_runtime no_files (startup no_files)
   \<and> predict example_runtime (startup no_files) (Inl (ValueError ''bad request'')) =
       \<lparr>status = 400, json = [(''error'', PStr ''Invalid JSON'')]\<rparr>
   \<and> status (predict example_runtime (startup no_files) (Inr (PList []))) = 500
   \<and> predict example_runtime (startup no_files) (Inr example_payload) =
       \<lparr>status = 200,
        json = [(''resale_value'', PFloat (Finite 19)), (''recycle_score'', PFloat (Finite 60)),
                (''reuse_score'', PFloat (Finite 90)), (''models_loaded'', PBool False)]\<rparr>
   \<and> reachable example_runtime all_files (startup all_files)
   \<and> predict example_runtime (startup all_files) (Inr example_payload) =
       \<lparr>status = 200,
        json = [(''resale_value'', PFloat (Finite 1)), (''recycle_score'', PFloat (Finite 2)),
                (''reuse_score'', PFloat (Finite 3)), (''models_loaded'', PBool True)]\<rparr>
   \<and> all_files PREPROCESSOR_PKL \<noteq> Pickled None
   \<and> models_loaded (startup all_files)
   \<and> model_backed_mode (startup all_files)"
proof -
  have r1: "reachable example_runtime no_files (startup no_files)"
    and r2: "reachable example_runtime all_files (startup all_files)"
    by (rule after_startup)+
  note t1 = predict_responses [OF r1, of "ValueError ''bad request''" example_payload _
      "[(''Resale_Value'', PFloat (Finite 19)), (''Recycle_Value'', PFloat (Finite 60)),
        (''Reuse_Score'', PFloat (Finite 90))]"]
  note t2 = predict_responses [OF r1, of "ValueError ''bad request''" "PList []"
      "AttributeError ([CHR 0x27] @ ''list'' @ [CHR 0x27] @ '' object has no attribute '' @
                          [CHR 0x27] @ ''get'' @ [CHR 0x27])"]
  note t3 = predict_responses [OF r2, of "ValueError ''bad request''" example_payload _
      "[(''Resale_Value'', PFloat (Finite 1)), (''Recycle_Value'', PFloat (Finite 2)),
        (''Reuse_Score'', PFloat (Finite 3))]"]
  have "predict example_runtime (startup no_files) (Inl (ValueError ''bad request'')) =
       \<lparr>status = 400, json = [(''error'', PStr ''Invalid JSON'')]\<rparr>"
    using t1 by blast
  moreover have "status (predict example_runtime (startup no_files) (Inr (PList []))) = 500"
    using t2 example_pipeline(3) by simp
  moreover have "predict example_runtime (startup no_files) (Inr example_payload) =
       \<lparr>status = 200,
        json = [(''resale_value'', PFloat (Finite 19)), (''recycle_score'', PFloat (Finite 60)),
                (''reuse_score'', PFloat (Finite 90)), (''models_loaded'', PBool False)]\<rparr>"
    using t1 example_pipeline(1) by (simp add: example_startups)
  moreover have "predict example_runtime (startup all_files) (Inr example_payload) =
       \<lparr>status = 200,
        json = [(''resale_value'', PFloat (Finite 1)), (''recycle_score'', PFloat (Finite 2)),
                (''reuse_score'', PFloat (Finite 3)), (''models_loaded'', PBool True)]\<rparr>"
    using t3 example_pipeline(2) by (simp add: example_startups)
  moreover have n: "all_files PREPROCESSOR_PKL \<noteq> Pickled None"
    by (simp add: example_files)
  moreover have l: "models_loaded (startup all_files)"
    by (simp add: example_startups)
  moreover from t3 n l have "model_backed_mode (startup all_files)"
    by blast
  ultimately show ?thesis using r1 r2 by simp
qed

text \<open>
  The claim C4 as stated fails in its last part: when the preprocessor file holds
  \<^verbatim>\<open>None\<close> and the model files unpickle, the response carries the fallback's numbers
  with \<^verbatim>\<open>models_loaded\<close> true.
\<close>

theorem flag_true_fallback_response:
  "reachable example_runtime null_files (startup null_files)
   \<and> \<not> model_backed_mode (startup null_files)
   \<and> predict example_runtime (startup null_files) (Inr example_payload) =
       \<lparr>status = 200,
        json = [(''resale_value'', PFloat (Finite 19)), (''recycle_score'', PFloat (Finite 60)),
                (''reuse_score'', PFloat (Finite 90)), (''models_loaded'', PBool True)]\<rparr>"
proof -
  have r: "reachable example_runtime null_files (startup null_files)"
    by (rule after_startup)
  have m: "\<not> model_backed_mode (startup null_files)"
    by (simp add: example_startups model_backed_mode_def)
  have b: "build_input_df example_payload = Inr (row_of example_payload)"
    by (simp add: row_of_def example_payload_def)
  have f: "fallback (row_of example_payload) =
      Inr [(''Resale_Value'', PFloat (Finite 19)), (''Recycle_Value'', PFloat (Finite 60)),
           (''Reuse_Score'', PFloat (Finite 90))]"
    by (simp add: fallback_def float_or_0_truthy float_of_int_def row_of_def example_payload_def
        dict_get_def lit_0_2_eq lit_0_1_eq lit_12_0_eq py_max0_def rnd_eval)
  have "run_pipeline example_runtime (startup null_files) example_payload =
      Inr [(''Resale_Value'', PFloat (Finite 19)), (''Recycle_Value'', PFloat (Finite 60)),
           (''Reuse_Score'', PFloat (Finite 90))]"
    using m by (simp add: run_pipeline_def b predict_all_targets_mode f)
  then have "predict example_runtime (startup null_files) (Inr example_payload) =
       \<lparr>status = 200,
        json = [(''resale_value'', PFloat (Finite 19)), (''recycle_score'', PFloat (Finite 60)),
                (''reuse_score'', PFloat (Finite 90)), (''models_loaded'', PBool True)]\<rparr>"
    by (simp add: predict_def dict_get_def example_startups)
  with r m show ?thesis by simp
qed

text \<open>
  Claim C9.  When the body is valid JSON but not an object (an array, a number, a
  string, a boolean or null), \<^verbatim>\<open>payload.get\<close> raises \<^verbatim>\<open>AttributeError\<close> inside the
  second \<^verbatim>\<open>try\<close>, and the response is 500 with the error \<^verbatim>\<open>Prediction failed\<close>, not
  400.
\<close>

theorem non_mapping_payload:
  assumes "\<forall>kvs. payload \<noteq> PDict kvs"
  shows "predict rt st (Inr payload) =
           \<lparr>status = 500,
            json = [(''error'', PStr ''Prediction failed''),
                    (''details'',
                     PStr ([CHR 0x27] @ type_name payload @ [CHR 0x27] @
                           '' object has no attribute '' @ [CHR 0x27] @ ''get'' @ [CHR 0x27]))]\<rparr>
         \<and> status (predict rt st (Inr payload)) \<noteq> 400"
proof -
  from assms have "build_input_df payload = Inl (no_attribute payload ''get'')"
    by (cases payload) simp_all
  then show ?thesis
    by (simp add: predict_def run_pipeline_def no_attribute_def)
qed

theorem non_mapping_payload_witness:
  "(\<forall>kvs. PList [PInt 1, PInt 2] \<noteq> PDict kvs)
   \<and> predict example_runtime (startup all_files) (Inr (PList [PInt 1, PInt 2])) =
       \<lparr>status = 500,
        json = [(''error'', PStr ''Prediction failed''),
                (''details'',
                 PStr ([CHR 0x27] @ ''list'' @ [CHR 0x27] @ '' object has no attribute '' @
                       [CHR 0x27] @ ''get'' @ [CHR 0x27]))]\<rparr>
   \<and> status (predict example_runtime (startup no_files) (Inr PNone)) = 500
   \<and> status (predict example_runtime (startup no_files) (Inr (PInt 7))) = 500
   \<and> status (predict example_runtime (startup no_files) (Inr (PStr ''text''))) = 500"
proof -
  have a: "\<forall>kvs. PList [PInt 1, PInt 2] \<noteq> PDict kvs" and b: "\<forall>kvs. PNone \<noteq> PDict kvs"
    and c: "\<forall>kvs. PInt 7 \<noteq> PDict kvs" and d: "\<forall>kvs. PStr ''text'' \<noteq> PDict kvs"
    by simp_all
  from non_mapping_payload [OF a, of example_runtime "startup all_files"]
    non_mapping_payload [OF b, of example_runtime "startup no_files"]
    non_mapping_payload [OF c, of example_runtime "startup no_files"]
    non_mapping_payload [OF d, of example_runtime "startup no_files"]
  show ?thesis by simp
qed

section \<open>The catch-all route\<close>

text \<open>
  Claim C8.  For every path for which it is not the case that the path names a file in
  the template folder and ends in \<^verbatim>\<open>.html\<close>, \<^verbatim>\<open>catch_all\<close> returns the response of
  the home page handler \<^verbatim>\<open>index\<close>.
\<close>

theorem catch_all_serves_index:
  assumes "\<not> (os_path_isfile w (os_path_join templates_dir subpath) \<and> endswith subpath ''.html'')"
  shows "catch_all w subpath = index w"
  using assms by (auto simp: catch_all_def index_def Let_def)

theorem catch_all_serves_index_witness:
  "\<not> (os_path_isfile example_web (os_path_join templates_dir ''no/such/page'')
        \<and> endswith ''no/such/page'' ''.html'')
   \<and> catch_all example_web ''no/such/page'' = index example_web
   \<and> index example_web = Inr (Page 200 ''<h1>index.html</h1>'')
   \<and> \<not> os_path_isfile example_web (os_path_join templates_dir ''other.html'')
   \<and> catch_all example_web ''other.html'' = index example_web"
proof -
  have a: "\<not> (os_path_isfile example_web (os_path_join templates_dir ''no/such/page'')
        \<and> endswith ''no/such/page'' ''.html'')"
    by (simp add: endswith_def)
  have b': "\<not> os_path_isfile example_web (os_path_join templates_dir ''other.html'')"
    by (simp add: example_web_def templates_dir_def template_folder_def os_path_join_def)
  then have b: "\<not> (os_path_isfile example_web (os_path_join templates_dir ''other.html'')
        \<and> endswith ''other.html'' ''.html'')"
    by simp
  have c: "index example_web = Inr (Page 200 ''<h1>index.html</h1>'')"
    by (simp add: index_def render_or_static_def example_web_def templates_dir_def
        template_folder_def os_path_join_def)
  from catch_all_serves_index [OF a] catch_all_serves_index [OF b] a b' c
  show ?thesis by simp
qed

end
